theory Spec2Isabelle
  imports Complex_Main
begin

section \<open>Conventions of the embedding\<close>

text \<open>
  The embedded program is \<^verbatim>\<open>trading_dashboard.py\<close>: the Bollinger-band breakout
  engine with its per-asset position state machine, the trade ledger, the performance
  aggregation and the evaluation cycle.

  \<^item> Python and numpy floats are modelled as real numbers, so every statement below is
    about exact arithmetic. A pandas value that is NaN (the warm-up prefix of a rolling
    window) is \<open>None\<close> in a \<open>real option\<close>; a comparison with NaN is false.
    Closing prices themselves are taken to be numbers, never NaN.
  \<^item> A numpy division by zero yields an infinity or NaN where HOL yields \<open>0\<close>. The
    quotients of the engine divide by an entry price or by a moving average; the
    reachable states below are those produced from positive prices, where the two agree.
  \<^item> The four module-level globals (\<^verbatim>\<open>latest_signals\<close>, \<^verbatim>\<open>active_trades\<close>,
    \<^verbatim>\<open>trade_history\<close>, \<^verbatim>\<open>performance_metrics\<close>) are the fields of one state record
    that every mutating function takes and returns.
  \<^item> \<^verbatim>\<open>datetime.now()\<close> is a parameter \<open>now\<close>; the remote candle provider
    \<^verbatim>\<open>fetch_binance_klines\<close> is a parameter \<open>fetch\<close>.
  \<^item> The reason texts that interpolate a formatted number
    (\<^verbatim>\<open>f'Closed (P&L: {net_pnl:.2f}%)'\<close>) are constructors of a datatype that carry the
    number unformatted.
\<close>

section \<open>Data model\<close>

datatype py_error = IndexError

text \<open>The rows of the candle frame that \<^verbatim>\<open>fetch_binance_klines\<close> returns.\<close>

record candle =
  c_open :: real
  c_high :: real
  c_low :: real
  c_close :: real
  c_volume :: real

text \<open>
  An entry of \<^verbatim>\<open>active_trades\<close>. Every place of the source that creates one sets all
  seven keys, so the defaults of the \<^verbatim>\<open>.get\<close> calls never apply and the keys are plain
  fields.
\<close>

record position =
  entry_price :: real
  signal :: string
  entry_time :: nat
  highest_since_entry :: real
  lowest_since_entry :: real
  stop_loss :: real
  stop_type :: string

text \<open>An entry of \<^verbatim>\<open>trade_history\<close>, as \<^verbatim>\<open>record_trade\<close> builds it.\<close>

record trade =
  t_symbol :: string
  t_entry_price :: real
  t_exit_price :: real
  t_signal_type :: string
  t_pnl :: real
  t_reason :: string
  t_timestamp :: nat

record metrics =
  total_trades :: nat
  winning_trades :: nat
  losing_trades :: nat
  total_pnl :: real
  win_rate :: real
  avg_win :: real
  avg_loss :: real
  profit_factor :: real
  sharpe_ratio :: real
  max_drawdown :: real

text \<open>The third component of the result of \<^verbatim>\<open>bollinger_signal\<close>; \<open>None\<close> is \<^verbatim>\<open>{}\<close>.\<close>

record position_info =
  in_position :: bool
  pi_entry_price :: real
  pi_pnl :: real
  current_stop :: real
  pi_stop_type :: string
  position_type :: string

datatype reason_text =
    Closed real
  | Stop_hit real
  | Exit_at_SMA real
  | Reversed real
  | Stop_active string
  | NEW_LONG
  | NEW_SHORT
  | Between_bands
  | No_data
  | Calc_error
  | Exception_text py_error

text \<open>
  The snapshot that \<^verbatim>\<open>fetch_asset_data\<close> returns, restricted to the fields the
  state machine determines. The display symbol, price, change, RSI and ATR are computed
  from the candle frame alone after the state machine has run; they are not modelled.
\<close>

record snapshot =
  s_signal :: string
  s_reason :: reason_text
  s_position :: "position_info option"

record state =
  latest_signals :: "string \<Rightarrow> snapshot option"
  active_trades :: "string \<Rightarrow> position option"
  trade_history :: "trade list"
  performance_metrics :: metrics

definition ASSETS :: "string list" where
  "ASSETS = [''BTCUSDT'', ''ETHUSDT'', ''BNBUSDT'', ''XRPUSDT'', ''SOLUSDT'', ''ADAUSDT'']"

definition TRADING_FEE :: real where
  "TRADING_FEE = 0.001"

definition trade_history_maxlen :: nat where
  "trade_history_maxlen = 200"

definition initial_metrics :: metrics where
  "initial_metrics =
     \<lparr>total_trades = 0, winning_trades = 0, losing_trades = 0, total_pnl = 0,
      win_rate = 0, avg_win = 0, avg_loss = 0, profit_factor = 0, sharpe_ratio = 0,
      max_drawdown = 0\<rparr>"

definition initial_state :: state where
  "initial_state =
     \<lparr>latest_signals = Map.empty, active_trades = Map.empty, trade_history = [],
      performance_metrics = initial_metrics\<rparr>"

section \<open>Trade ledger and performance aggregation\<close>

text \<open>
  \<^verbatim>\<open>deque(maxlen=n).append(x)\<close>: the element is added on the right, and when the deque
  then holds more than \<open>n\<close> elements one is dropped on the left.
\<close>

definition deque_append :: "nat \<Rightarrow> 'a list \<Rightarrow> 'a \<Rightarrow> 'a list" where
  "deque_append maxlen d x =
     (let d' = d @ [x] in if length d' > maxlen then tl d' else d')"

text \<open>\<^verbatim>\<open>np.mean\<close> and \<^verbatim>\<open>np.std\<close> (the population standard deviation).\<close>

definition np_mean :: "real list \<Rightarrow> real" where
  "np_mean xs = sum_list xs / real (length xs)"

definition np_std :: "real list \<Rightarrow> real" where
  "np_std xs = sqrt (np_mean (map (\<lambda>x. (x - np_mean xs)\<^sup>2) xs))"

text \<open>\<^verbatim>\<open>np.cumsum\<close> and \<^verbatim>\<open>np.maximum.accumulate\<close>, with the running value made explicit.\<close>

fun cumsum_from :: "real \<Rightarrow> real list \<Rightarrow> real list" where
  "cumsum_from acc [] = []"
| "cumsum_from acc (x # xs) = (acc + x) # cumsum_from (acc + x) xs"

definition cumsum :: "real list \<Rightarrow> real list" where
  "cumsum xs = cumsum_from 0 xs"

fun maximum_accumulate_from :: "real \<Rightarrow> real list \<Rightarrow> real list" where
  "maximum_accumulate_from m [] = []"
| "maximum_accumulate_from m (x # xs) = max m x # maximum_accumulate_from (max m x) xs"

definition maximum_accumulate :: "real list \<Rightarrow> real list" where
  "maximum_accumulate xs = (case xs of [] \<Rightarrow> [] | x # rest \<Rightarrow> x # maximum_accumulate_from x rest)"

definition np_max :: "real list \<Rightarrow> real" where
  "np_max xs = fold max (tl xs) (hd xs)"

definition update_performance_metrics :: "state \<Rightarrow> state" where
  "update_performance_metrics st =
     (if trade_history st = [] then st
      else
        let pnls = map t_pnl (trade_history st);
            wins = filter (\<lambda>p. p > 0) pnls;
            losses = filter (\<lambda>p. p < 0) pnls;
            pm1 = (performance_metrics st)
              \<lparr>total_trades := length pnls,
               winning_trades := length wins,
               losing_trades := length losses,
               total_pnl := sum_list pnls,
               win_rate := (if pnls \<noteq> [] then real (length wins) / real (length pnls) * 100 else 0),
               avg_win := (if wins \<noteq> [] then sum_list wins / real (length wins) else 0),
               avg_loss := (if losses \<noteq> [] then sum_list losses / real (length losses) else 0),
               profit_factor :=
                 (if losses \<noteq> [] \<and> sum_list losses \<noteq> 0
                  then sum_list wins / \<bar>sum_list losses\<bar> else 0)\<rparr>;
            pm2 = (if length pnls > 1
                   then pm1\<lparr>sharpe_ratio :=
                          (if np_std pnls > 0
                           then np_mean pnls / np_std pnls * sqrt (real (length pnls))
                           else 0)\<rparr>
                   else pm1);
            cumulative = cumsum pnls;
            drawdown = map2 (\<lambda>m c. m - c) (maximum_accumulate cumulative) cumulative
        in st\<lparr>performance_metrics :=
                pm2\<lparr>max_drawdown := (if length drawdown > 0 then np_max drawdown else 0)\<rparr>\<rparr>)"

definition record_trade ::
  "string \<Rightarrow> real \<Rightarrow> real \<Rightarrow> string \<Rightarrow> real \<Rightarrow> string \<Rightarrow> nat \<Rightarrow> state \<Rightarrow> state" where
  "record_trade symbol entry exit signal_type pnl reason now st =
     update_performance_metrics
       (st\<lparr>trade_history :=
             deque_append trade_history_maxlen (trade_history st)
               \<lparr>t_symbol = symbol, t_entry_price = entry, t_exit_price = exit,
                t_signal_type = signal_type, t_pnl = pnl, t_reason = reason,
                t_timestamp = now\<rparr>\<rparr>)"

section \<open>Indicator library\<close>

text \<open>
  A pandas series of numbers is a list; a series that may hold NaN is a list of
  \<open>real option\<close>. \<^verbatim>\<open>series.iloc[i]\<close> counts a negative index from the end and raises
  \<^verbatim>\<open>IndexError\<close> outside the series.
\<close>

definition iloc :: "'a list \<Rightarrow> int \<Rightarrow> py_error + 'a" where
  "iloc xs i =
     (let pos = (if i < 0 then i + int (length xs) else i)
      in if pos < 0 \<or> int (length xs) \<le> pos then Inl IndexError else Inr (xs ! nat pos))"

text \<open>
  \<^verbatim>\<open>prices.rolling(window=w)\<close>: the window that ends at index \<open>i\<close>, defined once \<open>w\<close>
  observations are available (\<^verbatim>\<open>min_periods\<close> defaults to the window).
\<close>

definition rolling_window :: "nat \<Rightarrow> real list \<Rightarrow> nat \<Rightarrow> real list option" where
  "rolling_window w xs i =
     (if w = 0 \<or> i + 1 < w then None else Some (take w (drop (i + 1 - w) xs)))"

definition window_mean :: "real list \<Rightarrow> real" where
  "window_mean ws = sum_list ws / real (length ws)"

text \<open>The sample standard deviation (\<^verbatim>\<open>ddof=1\<close>), which pandas leaves NaN for one observation.\<close>

definition window_std :: "real list \<Rightarrow> real option" where
  "window_std ws =
     (if length ws < 2 then None
      else Some (sqrt (sum_list (map (\<lambda>x. (x - window_mean ws)\<^sup>2) ws) / real (length ws - 1))))"

definition rolling_mean :: "nat \<Rightarrow> real list \<Rightarrow> real option list" where
  "rolling_mean w xs = map (\<lambda>i. map_option window_mean (rolling_window w xs i)) [0..<length xs]"

definition rolling_std :: "nat \<Rightarrow> real list \<Rightarrow> real option list" where
  "rolling_std w xs =
     map (\<lambda>i. case rolling_window w xs i of None \<Rightarrow> None | Some ws \<Rightarrow> window_std ws)
       [0..<length xs]"

text \<open>Elementwise arithmetic of two aligned series; NaN propagates.\<close>

definition series_add :: "real option list \<Rightarrow> real option list \<Rightarrow> real option list" where
  "series_add xs ys =
     map2 (\<lambda>a b. case (a, b) of (Some x, Some y) \<Rightarrow> Some (x + y) | _ \<Rightarrow> None) xs ys"

definition series_sub :: "real option list \<Rightarrow> real option list \<Rightarrow> real option list" where
  "series_sub xs ys =
     map2 (\<lambda>a b. case (a, b) of (Some x, Some y) \<Rightarrow> Some (x - y) | _ \<Rightarrow> None) xs ys"

definition series_scale :: "real option list \<Rightarrow> real \<Rightarrow> real option list" where
  "series_scale xs k = map (map_option (\<lambda>x. x * k)) xs"

text \<open>
  The source returns \<^verbatim>\<open>(None, None, None)\<close> on a short series and the caller tests the
  first component; here that result is \<open>None\<close>.
\<close>

definition calculate_bollinger_bands ::
  "real list \<Rightarrow> nat \<Rightarrow> real
     \<Rightarrow> (real option list \<times> real option list \<times> real option list) option" where
  "calculate_bollinger_bands prices len std_dev =
     (if length prices < len then None
      else
        let sma = rolling_mean len prices;
            std = rolling_std len prices;
            upper_band = series_add sma (series_scale std std_dev);
            lower_band = series_sub sma (series_scale std std_dev)
        in Some (upper_band, sma, lower_band))"

section \<open>Signal detector\<close>

text \<open>The values that \<^verbatim>\<open>bollinger_signal\<close> reads from its series arguments.\<close>

record bars =
  current_price :: real
  previous_price :: real
  current_upper :: "real option"
  current_lower :: "real option"
  current_sma :: "real option"
  previous_upper :: "real option"
  previous_lower :: "real option"

definition read_bars ::
  "real list \<Rightarrow> real option list \<Rightarrow> real option list \<Rightarrow> real option list
     \<Rightarrow> py_error + bars" where
  "read_bars prices_close upper_band lower_band sma =
     (case iloc prices_close (- 1) of Inl e \<Rightarrow> Inl e | Inr cp \<Rightarrow>
      case iloc prices_close (- 2) of Inl e \<Rightarrow> Inl e | Inr pp \<Rightarrow>
      case iloc upper_band (- 1) of Inl e \<Rightarrow> Inl e | Inr cu \<Rightarrow>
      case iloc lower_band (- 1) of Inl e \<Rightarrow> Inl e | Inr cl \<Rightarrow>
      case iloc sma (- 1) of Inl e \<Rightarrow> Inl e | Inr cm \<Rightarrow>
      case iloc upper_band (- 2) of Inl e \<Rightarrow> Inl e | Inr pu \<Rightarrow>
      case iloc lower_band (- 2) of Inl e \<Rightarrow> Inl e | Inr pl \<Rightarrow>
        Inr \<lparr>current_price = cp, previous_price = pp, current_upper = cu,
             current_lower = cl, current_sma = cm, previous_upper = pu,
             previous_lower = pl\<rparr>)"

definition new_buy_signal :: "bars \<Rightarrow> bool" where
  "new_buy_signal b =
     (case (previous_upper b, current_upper b) of
        (Some pu, Some cu) \<Rightarrow> previous_price b \<le> pu \<and> current_price b > cu
      | _ \<Rightarrow> False)"

definition new_sell_signal :: "bars \<Rightarrow> bool" where
  "new_sell_signal b =
     (case (previous_lower b, current_lower b) of
        (Some pl, Some cl) \<Rightarrow> previous_price b \<ge> pl \<and> current_price b < cl
      | _ \<Rightarrow> False)"

text \<open>
  \<^verbatim>\<open>abs(current_price - current_sma) / current_sma < 0.002\<close>. At a moving average of
  zero the numpy quotient is an infinity or NaN and the comparison is false.
\<close>

definition at_sma :: "bars \<Rightarrow> bool" where
  "at_sma b =
     (case current_sma b of
        Some m \<Rightarrow> m \<noteq> 0 \<and> \<bar>current_price b - m\<bar> / m < 0.002
      | None \<Rightarrow> False)"

section \<open>Position state machine\<close>

text \<open>\<^verbatim>\<open>round(x, 2)\<close> on the exact value: to the nearest hundredth, a tie to the even one.\<close>

definition py_round2 :: "real \<Rightarrow> real" where
  "py_round2 x =
     (let y = x * 100; f = \<lfloor>y\<rfloor>; d = y - of_int f
      in of_int (if d < 1 / 2 then f
                 else if d > 1 / 2 then f + 1
                 else if even f then f else f + 1) / 100)"

text \<open>
  Lines 103 to 148 of the source: the unrealized P&L, the update of the stored stop and
  the stop check. The result is the updated entry, the P&L and, when the stop is hit, the
  direction and exit reason that the branch passes to \<^verbatim>\<open>record_trade\<close>. A stored
  direction other than \<^verbatim>\<open>'BUY'\<close> takes the short branch, as the \<^verbatim>\<open>else\<close> does.
\<close>

definition stop_management :: "position \<Rightarrow> real \<Rightarrow> position \<times> real \<times> (string \<times> string) option" where
  "stop_management entry_data cp =
     (let ep = entry_price entry_data in
      if signal entry_data = ''BUY'' then
        let pnl = ((cp - ep) / ep) * 100;
            highest = highest_since_entry entry_data
        in if pnl \<ge> 1 then
             let trailing_stop = highest * 0.98;
                 entry_data' = entry_data\<lparr>stop_loss := max (stop_loss entry_data) trailing_stop,
                                           stop_type := ''Trailing''\<rparr>
             in (entry_data', pnl,
                 if cp \<le> trailing_stop then Some (''BUY'', ''Trailing'') else None)
           else
             let entry_data' = entry_data\<lparr>stop_loss := ep * 0.98, stop_type := ''Initial''\<rparr>
             in (entry_data', pnl,
                 if cp \<le> stop_loss entry_data' then Some (''BUY'', ''Stop'') else None)
      else
        let pnl = ((ep - cp) / ep) * 100;
            lowest = lowest_since_entry entry_data
        in if pnl \<ge> 1 then
             let trailing_stop = lowest * 1.02;
                 entry_data' = entry_data\<lparr>stop_loss := min (stop_loss entry_data) trailing_stop,
                                           stop_type := ''Trailing''\<rparr>
             in (entry_data', pnl,
                 if cp \<ge> trailing_stop then Some (''SELL'', ''Trailing'') else None)
           else
             let entry_data' = entry_data\<lparr>stop_loss := ep * 1.02, stop_type := ''Initial''\<rparr>
             in (entry_data', pnl,
                 if cp \<ge> stop_loss entry_data' then Some (''SELL'', ''Stop'') else None))"

text \<open>Lines 100 and 101: the extremes since entry follow the current price.\<close>

definition track_extremes :: "position \<Rightarrow> real \<Rightarrow> position" where
  "track_extremes entry_data cp =
     entry_data\<lparr>highest_since_entry := max (highest_since_entry entry_data) cp,
                lowest_since_entry := min (lowest_since_entry entry_data) cp\<rparr>"

text \<open>\<^verbatim>\<open>del active_trades[symbol]\<close>.\<close>

definition del_active_trade :: "string \<Rightarrow> state \<Rightarrow> state" where
  "del_active_trade symbol st = st\<lparr>active_trades := (active_trades st)(symbol := None)\<rparr>"

definition set_active_trade :: "string \<Rightarrow> position \<Rightarrow> state \<Rightarrow> state" where
  "set_active_trade symbol p st = st\<lparr>active_trades := (active_trades st)(symbol \<mapsto> p)\<rparr>"

text \<open>
  The body of \<^verbatim>\<open>bollinger_signal\<close> from line 84 on, over the values read from the
  series. The entry of an open position is a dictionary that the source mutates in place
  inside \<^verbatim>\<open>active_trades\<close>; here each mutation is written back to the state before the
  next effect.
\<close>

definition evaluate_bars ::
  "string \<Rightarrow> bars \<Rightarrow> nat \<Rightarrow> state \<Rightarrow> (string \<times> reason_text \<times> position_info option) \<times> state" where
  "evaluate_bars symbol b now st =
     (let cp = current_price b;
          buy = new_buy_signal b;
          sell = new_sell_signal b
      in case active_trades st symbol of
        Some entry_data0 \<Rightarrow>
          let signal_type = signal entry_data0;
              ep = entry_price entry_data0;
              entry_data1 = track_extremes entry_data0 cp;
              (entry_data, pnl, stop_exit) = stop_management entry_data1 cp;
              st1 = set_active_trade symbol entry_data st;
              net_pnl = pnl - (TRADING_FEE * 200)
          in (case stop_exit of
                Some (side, reason) \<Rightarrow>
                  ((''NEUTRAL'',
                    (if reason = ''Trailing'' then Closed net_pnl else Stop_hit net_pnl), None),
                   del_active_trade symbol (record_trade symbol ep cp side net_pnl reason now st1))
              | None \<Rightarrow>
                  if at_sma b then
                    ((''NEUTRAL'', Exit_at_SMA net_pnl, None),
                     del_active_trade symbol
                       (record_trade symbol ep cp signal_type net_pnl ''SMA'' now st1))
                  else if (signal_type = ''BUY'' \<and> sell) \<or> (signal_type = ''SELL'' \<and> buy) then
                    let st2 = del_active_trade symbol
                                (record_trade symbol ep cp signal_type net_pnl ''Reversal'' now st1);
                        new_signal = (if sell then ''SELL'' else ''BUY'');
                        new_stop = (if new_signal = ''BUY'' then cp * 0.98 else cp * 1.02)
                    in ((new_signal, Reversed net_pnl,
                         Some \<lparr>in_position = True, pi_entry_price = cp, pi_pnl = 0,
                               current_stop = new_stop, pi_stop_type = ''Initial'',
                               position_type = new_signal\<rparr>),
                        set_active_trade symbol
                          \<lparr>entry_price = cp, signal = new_signal, entry_time = now,
                           highest_since_entry = cp, lowest_since_entry = cp,
                           stop_loss = new_stop, stop_type = ''Initial''\<rparr> st2)
                  else
                    ((signal_type, Stop_active (stop_type entry_data),
                      Some \<lparr>in_position = True, pi_entry_price = ep, pi_pnl = py_round2 pnl,
                            current_stop = stop_loss entry_data,
                            pi_stop_type = stop_type entry_data,
                            position_type = signal_type\<rparr>),
                     st1))
      | None \<Rightarrow>
          if buy then
            ((''BUY'', NEW_LONG,
              Some \<lparr>in_position = True, pi_entry_price = cp, pi_pnl = 0,
                    current_stop = cp * 0.98, pi_stop_type = ''Initial'',
                    position_type = ''BUY''\<rparr>),
             set_active_trade symbol
               \<lparr>entry_price = cp, signal = ''BUY'', entry_time = now,
                highest_since_entry = cp, lowest_since_entry = cp,
                stop_loss = cp * 0.98, stop_type = ''Initial''\<rparr> st)
          else if sell then
            ((''SELL'', NEW_SHORT,
              Some \<lparr>in_position = True, pi_entry_price = cp, pi_pnl = 0,
                    current_stop = cp * 1.02, pi_stop_type = ''Initial'',
                    position_type = ''SELL''\<rparr>),
             set_active_trade symbol
               \<lparr>entry_price = cp, signal = ''SELL'', entry_time = now,
                highest_since_entry = cp, lowest_since_entry = cp,
                stop_loss = cp * 1.02, stop_type = ''Initial''\<rparr> st)
          else ((''NEUTRAL'', Between_bands, None), st))"

text \<open>
  \<^verbatim>\<open>bollinger_signal(symbol, prices_df, upper_band, lower_band, sma)\<close>; of the frame
  only the \<^verbatim>\<open>close\<close> column is read. An \<^verbatim>\<open>IndexError\<close> can only arise while the last
  two values are read, before any effect.
\<close>

definition bollinger_signal ::
  "string \<Rightarrow> real list \<Rightarrow> real option list \<Rightarrow> real option list \<Rightarrow> real option list
     \<Rightarrow> nat \<Rightarrow> state
     \<Rightarrow> py_error + ((string \<times> reason_text \<times> position_info option) \<times> state)" where
  "bollinger_signal symbol prices_close upper_band lower_band sma now st =
     (case read_bars prices_close upper_band lower_band sma of
        Inl e \<Rightarrow> Inl e
      | Inr b \<Rightarrow> Inr (evaluate_bars symbol b now st))"

section \<open>Evaluation cycle\<close>

definition error_snapshot :: "reason_text \<Rightarrow> snapshot" where
  "error_snapshot r = \<lparr>s_signal = ''ERROR'', s_reason = r, s_position = None\<rparr>"

text \<open>
  \<^verbatim>\<open>fetch_asset_data(symbol, interval)\<close>. \<open>fetch symbol interval\<close> is what
  \<^verbatim>\<open>fetch_binance_klines\<close> returns for the asset in this cycle: \<open>None\<close> after three
  failed attempts, otherwise the candle frame. The \<^verbatim>\<open>except\<close> branch is the
  \<open>Inl\<close> case.
\<close>

definition fetch_asset_data ::
  "(string \<Rightarrow> string \<Rightarrow> candle list option) \<Rightarrow> string \<Rightarrow> string \<Rightarrow> nat \<Rightarrow> state
     \<Rightarrow> snapshot \<times> state" where
  "fetch_asset_data fetch symbol interval now st =
     (case fetch symbol interval of
        None \<Rightarrow> (error_snapshot No_data, st)
      | Some df \<Rightarrow>
          if length df < 50 then (error_snapshot No_data, st)
          else
            let close_prices = map c_close df in
            case calculate_bollinger_bands close_prices 20 1 of
              None \<Rightarrow> (error_snapshot Calc_error, st)
            | Some (upper_band, sma_line, lower_band) \<Rightarrow>
                (case bollinger_signal symbol close_prices upper_band lower_band sma_line now st of
                   Inl e \<Rightarrow> (error_snapshot (Exception_text e), st)
                 | Inr ((sig, reason, pos), st') \<Rightarrow>
                     (\<lparr>s_signal = sig, s_reason = reason, s_position = pos\<rparr>, st')))"

text \<open>The \<^verbatim>\<open>for symbol in ASSETS\<close> loop of \<^verbatim>\<open>update_all_signals\<close>, over any asset list.\<close>

fun update_loop ::
  "(string \<Rightarrow> string \<Rightarrow> candle list option) \<Rightarrow> string \<Rightarrow> nat \<Rightarrow> string list
     \<Rightarrow> (string \<Rightarrow> snapshot option) \<Rightarrow> state \<Rightarrow> (string \<Rightarrow> snapshot option) \<times> state" where
  "update_loop fetch interval now [] signals st = (signals, st)"
| "update_loop fetch interval now (symbol # rest) signals st =
     (let (snap, st') = fetch_asset_data fetch symbol interval now st
      in update_loop fetch interval now rest (signals(symbol \<mapsto> snap)) st')"

definition update_all_signals ::
  "(string \<Rightarrow> string \<Rightarrow> candle list option) \<Rightarrow> string \<Rightarrow> nat \<Rightarrow> state \<Rightarrow> state" where
  "update_all_signals fetch interval now st =
     (let (signals, st') = update_loop fetch interval now ASSETS Map.empty st
      in st'\<lparr>latest_signals := signals\<rparr>)"

text \<open>
  The states of the running program: the initial globals, changed only by calls of
  \<^verbatim>\<open>bollinger_signal\<close> whose current close is a positive price and by the publication
  of a snapshot map.
\<close>

inductive reachable :: "state \<Rightarrow> bool" where
  reachable_init: "reachable initial_state"
| reachable_step:
    "reachable st \<Longrightarrow>
     bollinger_signal symbol prices_close upper_band lower_band sma now st = Inr (out, st') \<Longrightarrow>
     iloc prices_close (- 1) = Inr cp \<Longrightarrow> 0 < cp \<Longrightarrow>
     reachable st'"
| reachable_publish: "reachable st \<Longrightarrow> reachable (st\<lparr>latest_signals := signals\<rparr>)"

text \<open>A sequence of ledger appends, each made by \<^verbatim>\<open>record_trade\<close>.\<close>

definition record_trades :: "trade list \<Rightarrow> state \<Rightarrow> state" where
  "record_trades ts st =
     foldl (\<lambda>s t. record_trade (t_symbol t) (t_entry_price t) (t_exit_price t)
                     (t_signal_type t) (t_pnl t) (t_reason t) (t_timestamp t) s) st ts"

section \<open>Notions of the specification\<close>

text \<open>
  The specification's words for the stop management of an open position (section 4.3,
  steps 1 to 3), over the entry as stored before the evaluation and the current price:
  the unrealized P&L, the active stop type, the active stop (the tighter of the previous
  stop and the trailing candidate once the P&L has reached 1 percent, the initial stop
  otherwise) and the breach of that stop.
\<close>

definition spec_unrealized_pnl :: "position \<Rightarrow> real \<Rightarrow> real" where
  "spec_unrealized_pnl p cp =
     (if signal p = ''BUY'' then (cp - entry_price p) / entry_price p * 100
      else (entry_price p - cp) / entry_price p * 100)"

definition spec_stop_type :: "position \<Rightarrow> real \<Rightarrow> string" where
  "spec_stop_type p cp = (if spec_unrealized_pnl p cp \<ge> 1 then ''Trailing'' else ''Initial'')"

definition spec_active_stop :: "position \<Rightarrow> real \<Rightarrow> real" where
  "spec_active_stop p cp =
     (if signal p = ''BUY'' then
        (if spec_unrealized_pnl p cp \<ge> 1
         then max (stop_loss p) (max (highest_since_entry p) cp * 0.98)
         else entry_price p * 0.98)
      else
        (if spec_unrealized_pnl p cp \<ge> 1
         then min (stop_loss p) (min (lowest_since_entry p) cp * 1.02)
         else entry_price p * 1.02))"

definition spec_updated_position :: "position \<Rightarrow> real \<Rightarrow> position" where
  "spec_updated_position p cp =
     (track_extremes p cp)\<lparr>stop_loss := spec_active_stop p cp, stop_type := spec_stop_type p cp\<rparr>"

definition spec_stop_breached :: "position \<Rightarrow> real \<Rightarrow> bool" where
  "spec_stop_breached p cp =
     (if signal p = ''BUY'' then cp \<le> spec_active_stop p cp else cp \<ge> spec_active_stop p cp)"

text \<open>The invariant of a stored position that the reachable states maintain.\<close>

definition position_ok :: "position \<Rightarrow> bool" where
  "position_ok p \<longleftrightarrow>
     0 < entry_price p \<and> (signal p = ''BUY'' \<or> signal p = ''SELL'')
     \<and> lowest_since_entry p \<le> entry_price p \<and> entry_price p \<le> highest_since_entry p
     \<and> (if signal p = ''BUY'' then stop_loss p \<le> highest_since_entry p * 0.98
         else lowest_since_entry p * 1.02 \<le> stop_loss p)"

section \<open>Example states\<close>

text \<open>A long position opened at 1000 by a breakout of the first asset, in the initial state.\<close>

definition example_long :: position where
  "example_long =
     \<lparr>entry_price = 1000, signal = ''BUY'', entry_time = 1, highest_since_entry = 1000,
      lowest_since_entry = 1000, stop_loss = 980, stop_type = ''Initial''\<rparr>"

definition example_long_state :: state where
  "example_long_state = set_active_trade ''BTCUSDT'' example_long initial_state"

text \<open>
  The same position after an evaluation at 1050 (the stop trails at 1029), and after a
  further evaluation at 1005.
\<close>

definition example_trailing :: position where
  "example_trailing =
     \<lparr>entry_price = 1000, signal = ''BUY'', entry_time = 1, highest_since_entry = 1050,
      lowest_since_entry = 1000, stop_loss = 1029, stop_type = ''Trailing''\<rparr>"

definition example_reset :: position where
  "example_reset =
     \<lparr>entry_price = 1000, signal = ''BUY'', entry_time = 1, highest_since_entry = 1050,
      lowest_since_entry = 1000, stop_loss = 980, stop_type = ''Initial''\<rparr>"

text \<open>A provider that returns a history of 30 candles for every asset.\<close>

definition example_candle :: candle where
  "example_candle = \<lparr>c_open = 1000, c_high = 1010, c_low = 990, c_close = 1005, c_volume = 12\<rparr>"

definition example_fetch :: "string \<Rightarrow> string \<Rightarrow> candle list option" where
  "example_fetch symbol interval = Some (replicate 30 example_candle)"

section \<open>Properties of the ledger and the performance summary\<close>

lemma trade_history_update_performance_metrics [simp]:
  "trade_history (update_performance_metrics st) = trade_history st"
  by (simp add: update_performance_metrics_def Let_def)

lemma active_trades_update_performance_metrics [simp]:
  "active_trades (update_performance_metrics st) = active_trades st"
  by (simp add: update_performance_metrics_def Let_def)

lemma latest_signals_update_performance_metrics [simp]:
  "latest_signals (update_performance_metrics st) = latest_signals st"
  by (simp add: update_performance_metrics_def Let_def)

lemma trade_history_record_trade:
  "trade_history (record_trade symbol entry exit signal_type pnl reason now st) =
     deque_append trade_history_maxlen (trade_history st)
       \<lparr>t_symbol = symbol, t_entry_price = entry, t_exit_price = exit,
        t_signal_type = signal_type, t_pnl = pnl, t_reason = reason, t_timestamp = now\<rparr>"
  by (simp add: record_trade_def)

lemma active_trades_record_trade [simp]:
  "active_trades (record_trade symbol entry exit signal_type pnl reason now st) = active_trades st"
  by (simp add: record_trade_def)

lemma latest_signals_record_trade [simp]:
  "latest_signals (record_trade symbol entry exit signal_type pnl reason now st) = latest_signals st"
  by (simp add: record_trade_def)

lemma deque_append_drop:
  "deque_append n (drop (length xs - n) xs) x = drop (length (xs @ [x]) - n) (xs @ [x])"
proof (cases "length xs < n")
  case True
  then show ?thesis by (simp add: deque_append_def Let_def)
next
  case False
  then have le: "n \<le> length xs" by simp
  define k where "k = length xs - n"
  have tl_eq: "tl (drop k xs @ [x]) = drop (Suc k) (xs @ [x])"
  proof (cases "n = 0")
    case True
    then show ?thesis by (simp add: k_def)
  next
    case False
    with le have "k < length xs" by (simp add: k_def)
    then have "drop k xs \<noteq> []" by simp
    then have "tl (drop k xs @ [x]) = tl (drop k xs) @ [x]" by (cases "drop k xs") simp_all
    also have "\<dots> = drop (Suc k) xs @ [x]" by (simp add: tl_drop drop_Suc)
    also have "\<dots> = drop (Suc k) (xs @ [x])" using \<open>k < length xs\<close> by simp
    finally show ?thesis .
  qed
  have "Suc (length xs) - n = Suc k" using le by (simp add: k_def Suc_diff_le)
  with le tl_eq show ?thesis
    by (simp add: deque_append_def Let_def k_def)
qed

lemma trade_history_record_trades_snoc:
  "trade_history (record_trades (ts @ [t]) st) =
     deque_append trade_history_maxlen (trade_history (record_trades ts st)) t"
  by (cases t) (simp add: record_trades_def trade_history_record_trade)

lemma trade_history_record_trades:
  "trade_history (record_trades ts initial_state) = drop (length ts - trade_history_maxlen) ts"
proof (induction ts rule: rev_induct)
  case Nil
  show ?case by (simp add: record_trades_def initial_state_def)
next
  case (snoc t ts)
  show ?case
    unfolding trade_history_record_trades_snoc snoc.IH
    by (rule deque_append_drop)
qed


lemma deque_append_not_Nil: "0 < n \<Longrightarrow> deque_append n d x \<noteq> []"
  by (cases d) (auto simp: deque_append_def Let_def)

lemma deque_append_full:
  "0 < n \<Longrightarrow> length d = n \<Longrightarrow> deque_append n d x = tl d @ [x]"
  by (cases d) (auto simp: deque_append_def Let_def)

lemma trade_history_record_trade_not_Nil:
  "trade_history (record_trade symbol entry exit signal_type pnl reason now st) \<noteq> []"
  by (simp add: trade_history_record_trade deque_append_not_Nil trade_history_maxlen_def)

lemma performance_metrics_record_trade:
  "performance_metrics (record_trade symbol entry exit signal_type pnl reason now st) =
     performance_metrics (update_performance_metrics
        (st\<lparr>trade_history := trade_history (record_trade symbol entry exit signal_type pnl reason now st)\<rparr>))"
  by (simp add: record_trade_def)

lemma win_rate_update:
  "trade_history st \<noteq> [] \<Longrightarrow>
   win_rate (performance_metrics (update_performance_metrics st)) =
     real (length (filter (\<lambda>p. 0 < p) (map t_pnl (trade_history st)))) /
       real (length (map t_pnl (trade_history st))) * 100"
  by (simp add: update_performance_metrics_def Let_def)

lemma profit_factor_update:
  "trade_history st \<noteq> [] \<Longrightarrow>
   profit_factor (performance_metrics (update_performance_metrics st)) =
     (let pnls = map t_pnl (trade_history st);
          wins = filter (\<lambda>p. 0 < p) pnls; losses = filter (\<lambda>p. p < 0) pnls
      in if losses = [] \<or> sum_list losses = 0 then 0 else sum_list wins / \<bar>sum_list losses\<bar>)"
  by (simp add: update_performance_metrics_def Let_def)

lemma total_pnl_update:
  "trade_history st \<noteq> [] \<Longrightarrow>
   total_pnl (performance_metrics (update_performance_metrics st)) = sum_list (map t_pnl (trade_history st))"
  by (simp add: update_performance_metrics_def Let_def)

text \<open>
  Claim C7. After every ledger append the summary is recomputed from the retained
  trades: the win rate is the share of trades with a positive P&L times 100, the profit
  factor is the sum of the wins over the absolute sum of the losses, and 0 when there is
  no losing trade or the losses sum to zero. For the ledger P&L values
  2, 1, 0.5, -1, -0.5 the win rate is 60, the total P&L 2 and the profit factor 3.5/1.5.
\<close>

theorem performance_summary_after_append:
  "let st' = record_trade symbol entry exit signal_type pnl reason now st;
       pnls = map t_pnl (trade_history st');
       wins = filter (\<lambda>p. 0 < p) pnls;
       losses = filter (\<lambda>p. p < 0) pnls;
       pm = performance_metrics st'
   in win_rate pm = real (length wins) / real (length pnls) * 100
    \<and> profit_factor pm =
        (if losses = [] \<or> sum_list losses = 0 then 0 else sum_list wins / \<bar>sum_list losses\<bar>)
    \<and> (pnls = [2, 1, 1 / 2, - 1, - (1 / 2)] \<longrightarrow>
         win_rate pm = 60 \<and> total_pnl pm = 2 \<and> profit_factor pm = 3.5 / 1.5)"
proof -
  define st' where "st' = record_trade symbol entry exit signal_type pnl reason now st"
  define h where "h = st\<lparr>trade_history := trade_history st'\<rparr>"
  have ne: "trade_history h \<noteq> []"
    by (simp add: h_def st'_def trade_history_record_trade_not_Nil)
  have pm: "performance_metrics st' = performance_metrics (update_performance_metrics h)"
    unfolding st'_def h_def by (rule performance_metrics_record_trade)
  have th: "trade_history h = trade_history st'" by (simp add: h_def)
  note facts = win_rate_update [OF ne] profit_factor_update [OF ne] total_pnl_update [OF ne]
  have wr: "win_rate (performance_metrics st') =
      real (length (filter (\<lambda>p. 0 < p) (map t_pnl (trade_history st')))) /
       real (length (map t_pnl (trade_history st'))) * 100"
    using facts(1) by (simp add: pm th)
  have pf: "profit_factor (performance_metrics st') =
     (let pnls = map t_pnl (trade_history st');
          wins = filter (\<lambda>p. 0 < p) pnls; losses = filter (\<lambda>p. p < 0) pnls
      in if losses = [] \<or> sum_list losses = 0 then 0 else sum_list wins / \<bar>sum_list losses\<bar>)"
    using facts(2) by (simp add: pm th)
  have tp: "total_pnl (performance_metrics st') = sum_list (map t_pnl (trade_history st'))"
    using facts(3) by (simp add: pm th)
  have ex: "map t_pnl (trade_history st') = [2, 1, 1 / 2, - 1, - (1 / 2)] \<Longrightarrow>
     win_rate (performance_metrics st') = 60 \<and> total_pnl (performance_metrics st') = 2
     \<and> profit_factor (performance_metrics st') = 3.5 / 1.5"
    by (simp add: wr pf tp Let_def)
  show ?thesis
    unfolding Let_def st'_def [symmetric]
    using wr pf ex by (simp add: Let_def)
qed

theorem performance_summary_after_append_witness:
  "map t_pnl (trade_history (record_trade ''SOLUSDT'' 200 199.4 ''BUY'' (- (1 / 2)) ''SMA'' 5
      (initial_state\<lparr>trade_history :=
        [\<lparr>t_symbol = ''BTCUSDT'', t_entry_price = 100, t_exit_price = 102.2,
          t_signal_type = ''BUY'', t_pnl = 2, t_reason = ''Trailing'', t_timestamp = 1\<rparr>,
         \<lparr>t_symbol = ''ETHUSDT'', t_entry_price = 100, t_exit_price = 98.8,
          t_signal_type = ''SELL'', t_pnl = 1, t_reason = ''SMA'', t_timestamp = 2\<rparr>,
         \<lparr>t_symbol = ''BNBUSDT'', t_entry_price = 100, t_exit_price = 100.7,
          t_signal_type = ''BUY'', t_pnl = 1 / 2, t_reason = ''Reversal'', t_timestamp = 3\<rparr>,
         \<lparr>t_symbol = ''XRPUSDT'', t_entry_price = 100, t_exit_price = 99.2,
          t_signal_type = ''BUY'', t_pnl = - 1, t_reason = ''SMA'', t_timestamp = 4\<rparr>]\<rparr>)))
     = [2, 1, 1 / 2, - 1, - (1 / 2)]
   \<and> win_rate (performance_metrics (record_trade ''SOLUSDT'' 200 199.4 ''BUY'' (- (1 / 2)) ''SMA'' 5
      (initial_state\<lparr>trade_history :=
        [\<lparr>t_symbol = ''BTCUSDT'', t_entry_price = 100, t_exit_price = 102.2,
          t_signal_type = ''BUY'', t_pnl = 2, t_reason = ''Trailing'', t_timestamp = 1\<rparr>,
         \<lparr>t_symbol = ''ETHUSDT'', t_entry_price = 100, t_exit_price = 98.8,
          t_signal_type = ''SELL'', t_pnl = 1, t_reason = ''SMA'', t_timestamp = 2\<rparr>,
         \<lparr>t_symbol = ''BNBUSDT'', t_entry_price = 100, t_exit_price = 100.7,
          t_signal_type = ''BUY'', t_pnl = 1 / 2, t_reason = ''Reversal'', t_timestamp = 3\<rparr>,
         \<lparr>t_symbol = ''XRPUSDT'', t_entry_price = 100, t_exit_price = 99.2,
          t_signal_type = ''BUY'', t_pnl = - 1, t_reason = ''SMA'', t_timestamp = 4\<rparr>]\<rparr>))) = 60
   \<and> profit_factor (performance_metrics (record_trade ''SOLUSDT'' 200 199.4 ''BUY'' (- (1 / 2)) ''SMA'' 5
      (initial_state\<lparr>trade_history :=
        [\<lparr>t_symbol = ''BTCUSDT'', t_entry_price = 100, t_exit_price = 102.2,
          t_signal_type = ''BUY'', t_pnl = 2, t_reason = ''Trailing'', t_timestamp = 1\<rparr>,
         \<lparr>t_symbol = ''ETHUSDT'', t_entry_price = 100, t_exit_price = 98.8,
          t_signal_type = ''SELL'', t_pnl = 1, t_reason = ''SMA'', t_timestamp = 2\<rparr>,
         \<lparr>t_symbol = ''BNBUSDT'', t_entry_price = 100, t_exit_price = 100.7,
          t_signal_type = ''BUY'', t_pnl = 1 / 2, t_reason = ''Reversal'', t_timestamp = 3\<rparr>,
         \<lparr>t_symbol = ''XRPUSDT'', t_entry_price = 100, t_exit_price = 99.2,
          t_signal_type = ''BUY'', t_pnl = - 1, t_reason = ''SMA'', t_timestamp = 4\<rparr>]\<rparr>))) = 7 / 3"
proof -
  define st where "st = initial_state\<lparr>trade_history :=
        [\<lparr>t_symbol = ''BTCUSDT'', t_entry_price = 100, t_exit_price = 102.2,
          t_signal_type = ''BUY'', t_pnl = 2, t_reason = ''Trailing'', t_timestamp = 1\<rparr>,
         \<lparr>t_symbol = ''ETHUSDT'', t_entry_price = 100, t_exit_price = 98.8,
          t_signal_type = ''SELL'', t_pnl = 1, t_reason = ''SMA'', t_timestamp = 2\<rparr>,
         \<lparr>t_symbol = ''BNBUSDT'', t_entry_price = 100, t_exit_price = 100.7,
          t_signal_type = ''BUY'', t_pnl = 1 / 2, t_reason = ''Reversal'', t_timestamp = 3\<rparr>,
         \<lparr>t_symbol = ''XRPUSDT'', t_entry_price = 100, t_exit_price = 99.2,
          t_signal_type = ''BUY'', t_pnl = - 1, t_reason = ''SMA'', t_timestamp = 4\<rparr>]\<rparr>"
  have pnls: "map t_pnl (trade_history
      (record_trade ''SOLUSDT'' 200 199.4 ''BUY'' (- (1 / 2)) ''SMA'' 5 st))
     = [2, 1, 1 / 2, - 1, - (1 / 2)]"
    by (simp add: st_def trade_history_record_trade deque_append_def trade_history_maxlen_def)
  from performance_summary_after_append
    [of "''SOLUSDT''" 200 "199.4" "''BUY''" "- (1 / 2)" "''SMA''" 5 st] pnls
  show ?thesis
    unfolding st_def [symmetric] by (simp add: Let_def)
qed
section \<open>Properties of the indicators\<close>

lemma rolling_window_Some:
  assumes "0 < w" "w \<le> i + 1" "i < length xs"
  shows "\<exists>ws. rolling_window w xs i = Some ws \<and> length ws = w"
proof -
  have "w \<le> length xs - (i + 1 - w)" using assms by arith
  with assms show ?thesis by (simp add: rolling_window_def)
qed

lemma rolling_window_None: "i + 1 < w \<Longrightarrow> rolling_window w xs i = None"
  by (simp add: rolling_window_def)

lemma sum_list_squares_nonneg: "0 \<le> (\<Sum>x\<leftarrow>ws. (x - c)\<^sup>2)" for c :: real
  by (rule sum_list_nonneg) auto

lemma window_std_nonneg: "window_std ws = Some sd \<Longrightarrow> 0 \<le> sd"
  by (auto simp: window_std_def sum_list_squares_nonneg split: if_splits)

lemma rolling_mean_nth:
  "i < length xs \<Longrightarrow> rolling_mean w xs ! i = map_option window_mean (rolling_window w xs i)"
  by (simp add: rolling_mean_def)

lemma rolling_std_nth:
  "i < length xs \<Longrightarrow>
   rolling_std w xs ! i = (case rolling_window w xs i of None \<Rightarrow> None | Some ws \<Rightarrow> window_std ws)"
  by (simp add: rolling_std_def)

lemma length_rolling [simp]:
  "length (rolling_mean w xs) = length xs" "length (rolling_std w xs) = length xs"
  by (simp_all add: rolling_mean_def rolling_std_def)

lemma bands_nth:
  assumes "calculate_bollinger_bands prices len std_dev = Some (u, m, l)" and "i < length prices"
  shows "length u = length prices \<and> length m = length prices \<and> length l = length prices
    \<and> m ! i = rolling_mean len prices ! i
    \<and> u ! i = (case (rolling_mean len prices ! i, rolling_std len prices ! i) of
                 (Some a, Some s) \<Rightarrow> Some (a + s * std_dev) | _ \<Rightarrow> None)
    \<and> l ! i = (case (rolling_mean len prices ! i, rolling_std len prices ! i) of
                 (Some a, Some s) \<Rightarrow> Some (a - s * std_dev) | _ \<Rightarrow> None)"
  using assms
  by (auto simp: calculate_bollinger_bands_def Let_def series_add_def series_sub_def
      series_scale_def split: if_splits option.splits)

lemma rolling_std_nonneg:
  "i < length xs \<Longrightarrow> rolling_std w xs ! i = Some sd \<Longrightarrow> 0 \<le> sd"
  by (auto simp: rolling_std_nth window_std_nonneg split: option.splits)

lemma bands_ordered_nth:
  assumes b: "calculate_bollinger_bands prices len std_dev = Some (u, m, l)"
    and k: "0 \<le> std_dev" and i: "i < length prices"
    and "u ! i = Some ub" "m ! i = Some mv" "l ! i = Some lb"
  shows "lb \<le> mv \<and> mv \<le> ub"
proof -
  note n = bands_nth [OF b i]
  from n assms(4,5) obtain sd where sd: "rolling_std len prices ! i = Some sd"
    and ub: "ub = mv + sd * std_dev"
    by (auto split: option.splits)
  from n assms(5,6) sd have lb: "lb = mv - sd * std_dev" by (auto split: option.splits)
  have "0 \<le> sd * std_dev" using rolling_std_nonneg [OF i sd] k by simp
  with ub lb show ?thesis by simp
qed

text \<open>
  Claim C8. For a price series of at least \<open>len\<close> points (20 in the engine) and a
  width multiplier that is not negative (1 in the engine), at every index \<open>i\<close> past the
  warm-up window the three bands are defined: the middle band is the mean of the last
  \<open>len\<close> prices up to \<open>i\<close>, the upper and the lower band are that mean plus and
  minus the sample standard deviation of the same window times the multiplier, and
  \<open>upper band \<ge> moving average \<ge> lower band\<close>. Inside the warm-up window the three
  bands are undefined.
\<close>

theorem bollinger_bands_ordered:
  assumes "len \<le> length prices" "2 \<le> len" "0 \<le> std_dev" "len - 1 \<le> i" "i < length prices"
  shows "\<exists>u m l.
     calculate_bollinger_bands prices len std_dev = Some (u, m, l)
     \<and> length u = length prices \<and> length m = length prices \<and> length l = length prices
     \<and> (let ws = take len (drop (i + 1 - len) prices);
              mv = sum_list ws / real len;
              sd = sqrt (sum_list (map (\<lambda>x. (x - mv)\<^sup>2) ws) / real (len - 1))
          in m ! i = Some mv
           \<and> u ! i = Some (mv + sd * std_dev)
           \<and> l ! i = Some (mv - sd * std_dev)
           \<and> 0 \<le> sd
           \<and> mv - sd * std_dev \<le> mv \<and> mv \<le> mv + sd * std_dev)
     \<and> (\<forall>j. j + 1 < len \<longrightarrow> u ! j = None \<and> m ! j = None \<and> l ! j = None)"
proof -
  obtain u m l where b: "calculate_bollinger_bands prices len std_dev = Some (u, m, l)"
    using assms(1) by (simp add: calculate_bollinger_bands_def Let_def)
  define ws where "ws = take len (drop (i + 1 - len) prices)"
  define mv where "mv = sum_list ws / real len"
  define sd where "sd = sqrt (sum_list (map (\<lambda>x. (x - mv)\<^sup>2) ws) / real (len - 1))"
  have "0 < len" "len \<le> i + 1" using assms(2,4) by arith+
  then have rw: "rolling_window len prices i = Some ws" and lw: "length ws = len"
    using rolling_window_Some [of len i prices] assms(5)
    by (auto simp: rolling_window_def ws_def)
  have wm: "window_mean ws = mv" by (simp add: window_mean_def mv_def lw)
  have wsd: "window_std ws = Some sd"
    using assms(2) by (simp add: window_std_def sd_def lw wm)
  have sd0: "0 \<le> sd" using wsd by (rule window_std_nonneg)
  note n = bands_nth [OF b assms(5)]
  have len: "length u = length prices" "length m = length prices" "length l = length prices"
    using n by simp_all
  have m: "m ! i = Some mv" using n rw wm by (simp add: rolling_mean_nth assms(5))
  have u: "u ! i = Some (mv + sd * std_dev)"
    using n rw wm wsd by (simp add: rolling_mean_nth rolling_std_nth assms(5))
  have l: "l ! i = Some (mv - sd * std_dev)"
    using n rw wm wsd by (simp add: rolling_mean_nth rolling_std_nth assms(5))
  have ord: "mv - sd * std_dev \<le> mv \<and> mv \<le> mv + sd * std_dev"
    using sd0 assms(3) by simp
  have warm: "u ! j = None \<and> m ! j = None \<and> l ! j = None" if j: "j + 1 < len" for j
  proof -
    have jl: "j < length prices" using j assms(1) by arith
    have "rolling_window len prices j = None" using j by (rule rolling_window_None)
    then show ?thesis
      using bands_nth [OF b jl] by (simp add: rolling_mean_nth rolling_std_nth jl)
  qed
  have formula: "let ws = take len (drop (i + 1 - len) prices);
              mv = sum_list ws / real len;
              sd = sqrt (sum_list (map (\<lambda>x. (x - mv)\<^sup>2) ws) / real (len - 1))
          in m ! i = Some mv
           \<and> u ! i = Some (mv + sd * std_dev)
           \<and> l ! i = Some (mv - sd * std_dev)
           \<and> 0 \<le> sd
           \<and> mv - sd * std_dev \<le> mv \<and> mv \<le> mv + sd * std_dev"
    unfolding Let_def ws_def [symmetric] mv_def [symmetric] sd_def [symmetric]
    using m u l sd0 ord by simp
  from b len formula warm show ?thesis by blast
qed

lemma sqrt_400: "sqrt 400 = 20"
  using real_sqrt_abs [of 20] by simp

theorem bollinger_bands_ordered_witness:
  "(20::nat) \<le> length [1060, 940, 1010, 990, 1010, 990, 1000, 1000, 1000, 1000,
                         1000, 1000, 1000, 1000, 1000, 1000, 1000, 1000, 1000, 1000 :: real]
   \<and> (2::nat) \<le> 20 \<and> (0::real) \<le> 1 \<and> (20::nat) - 1 \<le> 19
   \<and> (19::nat) < length [1060, 940, 1010, 990, 1010, 990, 1000, 1000, 1000, 1000,
                         1000, 1000, 1000, 1000, 1000, 1000, 1000, 1000, 1000, 1000 :: real]
   \<and> (\<exists>u m l.
        calculate_bollinger_bands
          [1060, 940, 1010, 990, 1010, 990, 1000, 1000, 1000, 1000,
           1000, 1000, 1000, 1000, 1000, 1000, 1000, 1000, 1000, 1000] 20 1 = Some (u, m, l)
        \<and> m ! 19 = Some 1000 \<and> u ! 19 = Some 1020 \<and> l ! 19 = Some 980
        \<and> u ! 0 = None \<and> m ! 0 = None \<and> l ! 0 = None)"
proof -
  define ps :: "real list" where
    "ps = [1060, 940, 1010, 990, 1010, 990, 1000, 1000, 1000, 1000,
           1000, 1000, 1000, 1000, 1000, 1000, 1000, 1000, 1000, 1000]"
  have h: "(20::nat) \<le> length ps" "(2::nat) \<le> 20" "(0::real) \<le> 1" "(20::nat) - 1 \<le> 19"
    "(19::nat) < length ps"
    by (simp_all add: ps_def)
  have w: "take 20 (drop (19 + 1 - 20) ps) = ps" by (simp add: ps_def)
  have mean: "sum_list ps / real (20::nat) = 1000" by (simp add: ps_def)
  have dev: "sum_list (map (\<lambda>x. (x - 1000)\<^sup>2) ps) / real ((20::nat) - 1) = 400"
    by (simp add: ps_def)
  from bollinger_bands_ordered [OF h] obtain u m l where
    b: "calculate_bollinger_bands ps 20 1 = Some (u, m, l)"
    and f: "let ws = take 20 (drop (19 + 1 - 20) ps);
              mv = sum_list ws / real (20::nat);
              sd = sqrt (sum_list (map (\<lambda>x. (x - mv)\<^sup>2) ws) / real ((20::nat) - 1))
          in m ! 19 = Some mv
           \<and> u ! 19 = Some (mv + sd * 1)
           \<and> l ! 19 = Some (mv - sd * 1)
           \<and> 0 \<le> sd
           \<and> mv - sd * 1 \<le> mv \<and> mv \<le> mv + sd * 1"
    and warm: "\<forall>j. j + 1 < (20::nat) \<longrightarrow> u ! j = None \<and> m ! j = None \<and> l ! j = None"
    by blast
  from f have "m ! 19 = Some 1000 \<and> u ! 19 = Some 1020 \<and> l ! 19 = Some 980"
    unfolding Let_def w mean dev sqrt_400 by simp
  moreover from warm have "u ! 0 = None \<and> m ! 0 = None \<and> l ! 0 = None" by simp
  ultimately show ?thesis
    using h b unfolding ps_def by blast
qed

section \<open>Properties of the signal detector\<close>

lemma iloc_last:
  assumes "iloc xs (- 1) = Inr x"
  shows "xs \<noteq> [] \<and> x = xs ! (length xs - 1)"
proof -
  from assms have "0 < length xs" and "x = xs ! nat (int (length xs) - 1)"
    by (simp_all add: iloc_def Let_def split: if_splits)
  moreover have "nat (int (length xs) - 1) = length xs - 1" by simp
  ultimately show ?thesis by simp
qed

lemma read_bars_Inr:
  assumes "read_bars prices_close upper_band lower_band sma = Inr b"
  shows "\<exists>cp pp cu cl cm pu pl.
     iloc prices_close (- 1) = Inr cp \<and> iloc prices_close (- 2) = Inr pp
     \<and> iloc upper_band (- 1) = Inr cu \<and> iloc lower_band (- 1) = Inr cl
     \<and> iloc sma (- 1) = Inr cm
     \<and> iloc upper_band (- 2) = Inr pu \<and> iloc lower_band (- 2) = Inr pl
     \<and> b = \<lparr>current_price = cp, previous_price = pp, current_upper = cu,
             current_lower = cl, current_sma = cm, previous_upper = pu,
             previous_lower = pl\<rparr>"
  using assms unfolding read_bars_def
  by (simp split: sum.splits)

lemma read_bars_current_price:
  "read_bars prices_close upper_band lower_band sma = Inr b \<Longrightarrow>
     iloc prices_close (- 1) = Inr (current_price b)"
  by (drule read_bars_Inr) auto

lemma read_bars_upper:
  "read_bars prices_close upper_band lower_band sma = Inr b \<Longrightarrow>
     iloc upper_band (- 1) = Inr (current_upper b)"
  by (drule read_bars_Inr) auto

lemma read_bars_lower:
  "read_bars prices_close upper_band lower_band sma = Inr b \<Longrightarrow>
     iloc lower_band (- 1) = Inr (current_lower b)"
  by (drule read_bars_Inr) auto

lemma bollinger_signal_Inr:
  assumes "bollinger_signal symbol prices_close upper_band lower_band sma now st = Inr (out, st')"
  obtains b where "read_bars prices_close upper_band lower_band sma = Inr b"
    and "evaluate_bars symbol b now st = (out, st')"
    and "iloc prices_close (- 1) = Inr (current_price b)"
  using assms read_bars_current_price
  by (auto simp: bollinger_signal_def split: sum.splits)

lemma read_bars_current:
  assumes rb: "read_bars prices_close upper_band lower_band sma = Inr b"
  shows "prices_close \<noteq> [] \<and> upper_band \<noteq> [] \<and> lower_band \<noteq> []
       \<and> current_upper b = upper_band ! (length upper_band - 1)
       \<and> current_lower b = lower_band ! (length lower_band - 1)"
  using iloc_last [OF read_bars_current_price [OF rb]]
    iloc_last [OF read_bars_upper [OF rb]] iloc_last [OF read_bars_lower [OF rb]]
  by simp

lemma signals_exclusive:
  assumes bands: "calculate_bollinger_bands prices_close len std_dev = Some (upper_band, sma, lower_band)"
    and k: "0 \<le> std_dev"
    and rb: "read_bars prices_close upper_band lower_band sma = Inr b"
  shows "\<not> (new_buy_signal b \<and> new_sell_signal b)"
proof
  assume both: "new_buy_signal b \<and> new_sell_signal b"
  then obtain cu cl where cu: "current_upper b = Some cu" "cu < current_price b"
    and cl: "current_lower b = Some cl" "current_price b < cl"
    by (auto simp: new_buy_signal_def new_sell_signal_def split: option.splits)
  note r = read_bars_current [OF rb]
  define i where "i = length prices_close - 1"
  have i: "i < length prices_close" using r by (simp add: i_def)
  note n = bands_nth [OF bands i]
  have "upper_band ! i = Some cu" "lower_band ! i = Some cl"
    using r cu cl n by (simp_all add: i_def)
  moreover then obtain mv where "sma ! i = Some mv"
    using n by (auto split: option.splits)
  ultimately have "cl \<le> mv \<and> mv \<le> cu"
    using bands_ordered_nth [OF bands k i] by blast
  with cu cl show False by simp
qed

section \<open>The position state machine against the specification\<close>

lemma record_trade_set_active_trade:
  "record_trade symbol entry exit signal_type pnl reason now (set_active_trade s q st) =
     set_active_trade s q (record_trade symbol entry exit signal_type pnl reason now st)"
  by (simp add: record_trade_def set_active_trade_def update_performance_metrics_def Let_def)

lemma del_set_active_trade [simp]:
  "del_active_trade s (set_active_trade s q st) = del_active_trade s st"
  by (simp add: del_active_trade_def set_active_trade_def)

lemma set_del_active_trade [simp]:
  "set_active_trade s q (del_active_trade s st) = set_active_trade s q st"
  by (simp add: del_active_trade_def set_active_trade_def)

lemma stop_management_fields:
  "stop_management (track_extremes p cp) cp = (q, pnl, se) \<Longrightarrow>
     q = spec_updated_position p cp \<and> pnl = spec_unrealized_pnl p cp"
  by (auto simp: stop_management_def track_extremes_def spec_updated_position_def
      spec_unrealized_pnl_def spec_active_stop_def spec_stop_type_def Let_def
      split: if_splits)

lemma stop_management_exit:
  assumes "position_ok p"
    and "stop_management (track_extremes p cp) cp = (q, pnl, se)"
  shows "se = (if spec_stop_breached p cp
               then Some (signal p, if spec_stop_type p cp = ''Trailing'' then ''Trailing'' else ''Stop'')
               else None)"
  using assms
  by (auto simp: stop_management_def track_extremes_def position_ok_def
      spec_unrealized_pnl_def spec_active_stop_def spec_stop_type_def spec_stop_breached_def
      Let_def max_def min_def split: if_splits)


lemma evaluate_bars_open:
  assumes pos: "active_trades st symbol = Some p" and ok: "position_ok p"
  shows "evaluate_bars symbol b now st =
     (let cp = current_price b;
          net = spec_unrealized_pnl p cp - TRADING_FEE * 200;
          q = spec_updated_position p cp
      in if spec_stop_breached p cp then
           ((''NEUTRAL'',
             (if spec_stop_type p cp = ''Trailing'' then Closed net else Stop_hit net), None),
            del_active_trade symbol
              (record_trade symbol (entry_price p) cp (signal p) net
                 (if spec_stop_type p cp = ''Trailing'' then ''Trailing'' else ''Stop'') now st))
         else if at_sma b then
           ((''NEUTRAL'', Exit_at_SMA net, None),
            del_active_trade symbol
              (record_trade symbol (entry_price p) cp (signal p) net ''SMA'' now st))
         else if (signal p = ''BUY'' \<and> new_sell_signal b) \<or> (signal p = ''SELL'' \<and> new_buy_signal b) then
           (let new_signal = (if new_sell_signal b then ''SELL'' else ''BUY'');
                new_stop = (if new_signal = ''BUY'' then cp * 0.98 else cp * 1.02)
            in ((new_signal, Reversed net,
                 Some \<lparr>in_position = True, pi_entry_price = cp, pi_pnl = 0,
                       current_stop = new_stop, pi_stop_type = ''Initial'',
                       position_type = new_signal\<rparr>),
                set_active_trade symbol
                  \<lparr>entry_price = cp, signal = new_signal, entry_time = now,
                   highest_since_entry = cp, lowest_since_entry = cp,
                   stop_loss = new_stop, stop_type = ''Initial''\<rparr>
                  (record_trade symbol (entry_price p) cp (signal p) net ''Reversal'' now st)))
         else
           ((signal p, Stop_active (spec_stop_type p cp),
             Some \<lparr>in_position = True, pi_entry_price = entry_price p,
                   pi_pnl = py_round2 (spec_unrealized_pnl p cp),
                   current_stop = spec_active_stop p cp,
                   pi_stop_type = spec_stop_type p cp,
                   position_type = signal p\<rparr>),
            set_active_trade symbol q st))"
proof -
  obtain q pnl se where sm: "stop_management (track_extremes p (current_price b)) (current_price b) = (q, pnl, se)"
    by (cases "stop_management (track_extremes p (current_price b)) (current_price b)") auto
  note f = stop_management_fields [OF sm]
  note e = stop_management_exit [OF ok sm]
  have q_stop: "stop_loss q = spec_active_stop p (current_price b)"
    and q_type: "stop_type q = spec_stop_type p (current_price b)"
    using f by (simp_all add: spec_updated_position_def)
  show ?thesis
    unfolding evaluate_bars_def Let_def
    using pos sm f e q_stop q_type
    by (simp add: record_trade_set_active_trade)
qed

lemma evaluate_bars_flat:
  assumes "active_trades st symbol = None"
  shows "evaluate_bars symbol b now st =
     (let cp = current_price b in
      if new_buy_signal b then
        ((''BUY'', NEW_LONG,
          Some \<lparr>in_position = True, pi_entry_price = cp, pi_pnl = 0,
                current_stop = cp * 0.98, pi_stop_type = ''Initial'',
                position_type = ''BUY''\<rparr>),
         set_active_trade symbol
           \<lparr>entry_price = cp, signal = ''BUY'', entry_time = now,
            highest_since_entry = cp, lowest_since_entry = cp,
            stop_loss = cp * 0.98, stop_type = ''Initial''\<rparr> st)
      else if new_sell_signal b then
        ((''SELL'', NEW_SHORT,
          Some \<lparr>in_position = True, pi_entry_price = cp, pi_pnl = 0,
                current_stop = cp * 1.02, pi_stop_type = ''Initial'',
                position_type = ''SELL''\<rparr>),
         set_active_trade symbol
           \<lparr>entry_price = cp, signal = ''SELL'', entry_time = now,
            highest_since_entry = cp, lowest_since_entry = cp,
            stop_loss = cp * 1.02, stop_type = ''Initial''\<rparr> st)
      else ((''NEUTRAL'', Between_bands, None), st))"
  using assms by (simp add: evaluate_bars_def Let_def)


lemma position_ok_updated:
  "position_ok p \<Longrightarrow> position_ok (spec_updated_position p cp)"
  by (auto simp: position_ok_def spec_updated_position_def track_extremes_def
      spec_active_stop_def max_def min_def split: if_splits)

lemma position_ok_new:
  "0 < cp \<Longrightarrow> s = ''BUY'' \<or> s = ''SELL'' \<Longrightarrow>
   position_ok \<lparr>entry_price = cp, signal = s, entry_time = now,
     highest_since_entry = cp, lowest_since_entry = cp,
     stop_loss = (if s = ''BUY'' then cp * 0.98 else cp * 1.02), stop_type = ''Initial''\<rparr>"
  by (auto simp: position_ok_def)

lemma active_trades_del [simp]:
  "active_trades (del_active_trade s st) = (active_trades st)(s := None)"
  by (simp add: del_active_trade_def)

lemma active_trades_set [simp]:
  "active_trades (set_active_trade s q st) = (active_trades st)(s \<mapsto> q)"
  by (simp add: set_active_trade_def)

lemma trade_history_del [simp]: "trade_history (del_active_trade s st) = trade_history st"
  by (simp add: del_active_trade_def)

lemma trade_history_set [simp]: "trade_history (set_active_trade s q st) = trade_history st"
  by (simp add: set_active_trade_def)

lemma evaluate_bars_other:
  assumes "s \<noteq> symbol" and ok: "\<And>p. active_trades st symbol = Some p \<Longrightarrow> position_ok p"
  shows "active_trades (snd (evaluate_bars symbol b now st)) s = active_trades st s"
proof (cases "active_trades st symbol")
  case None
  then show ?thesis using assms(1) by (simp add: evaluate_bars_flat Let_def)
next
  case (Some p)
  then show ?thesis using assms(1) ok [OF Some]
    by (simp add: evaluate_bars_open Let_def)
qed

lemma evaluate_bars_position_ok:
  assumes ok: "\<And>p. active_trades st symbol = Some p \<Longrightarrow> position_ok p"
    and cp: "0 < current_price b"
    and after: "active_trades (snd (evaluate_bars symbol b now st)) symbol = Some p'"
  shows "position_ok p'"
proof (cases "active_trades st symbol")
  case None
  with after cp show ?thesis
    by (auto simp: evaluate_bars_flat Let_def position_ok_def split: if_splits)
next
  case (Some p)
  with after cp ok [OF Some] position_ok_updated [OF ok [OF Some], of "current_price b"] show ?thesis
    by (auto simp: evaluate_bars_open Let_def position_ok_def split: if_splits)
qed

lemma reachable_position_ok:
  "reachable st \<Longrightarrow> active_trades st s = Some p \<Longrightarrow> position_ok p"
proof (induction arbitrary: s p rule: reachable.induct)
  case reachable_init
  then show ?case by (simp add: initial_state_def)
next
  case (reachable_step st symbol prices_close upper_band lower_band sma now out st' cp)
  from reachable_step.hyps(2) obtain b where
    ev: "evaluate_bars symbol b now st = (out, st')" and
    il: "iloc prices_close (- 1) = Inr (current_price b)"
    by (rule bollinger_signal_Inr)
  from il reachable_step.hyps(3,4) have pos: "0 < current_price b" by simp
  have st': "st' = snd (evaluate_bars symbol b now st)" using ev by simp
  show ?case
  proof (cases "s = symbol")
    case True
    with reachable_step.prems st' have "active_trades (snd (evaluate_bars symbol b now st)) symbol = Some p"
      by simp
    then show ?thesis
      using evaluate_bars_position_ok [of st symbol b now p] reachable_step.IH pos by blast
  next
    case False
    have "active_trades st' s = active_trades st s"
      unfolding st' using False reachable_step.IH by (rule evaluate_bars_other)
    with reachable_step.prems reachable_step.IH show ?thesis by simp
  qed
next
  case (reachable_publish st signals)
  then show ?case by simp
qed

lemma bollinger_signal_read:
  "read_bars prices_close upper_band lower_band sma = Inr b \<Longrightarrow>
   bollinger_signal symbol prices_close upper_band lower_band sma now st =
     Inr (evaluate_bars symbol b now st)"
  by (simp add: bollinger_signal_def)

lemma stored_stop_spec:
  "stop_loss (fst (stop_management (track_extremes p cp) cp)) = spec_active_stop p cp
   \<and> stop_type (fst (stop_management (track_extremes p cp) cp)) = spec_stop_type p cp"
proof -
  obtain q pnl se where sm: "stop_management (track_extremes p cp) cp = (q, pnl, se)"
    by (cases "stop_management (track_extremes p cp) cp") auto
  from stop_management_fields [OF sm] sm show ?thesis
    by (simp add: spec_updated_position_def)
qed

lemma spec_stop_type_cases: "spec_stop_type p cp = ''Trailing'' \<or> spec_stop_type p cp = ''Initial''"
  by (simp add: spec_stop_type_def)

text \<open>
  Claim C2. In every evaluation of an open position of a reachable state, the stop stored
  at the stop check is the specification's active stop (the tighter of the previous stop
  and the trailing candidate once the unrealized P&L has reached 1 percent, the initial
  stop otherwise). If the current price breaches it (at or below it for a long position,
  at or above it for a short one), the position closes and the one trade appended has the
  exit reason \<^verbatim>\<open>Trailing\<close> when the active stop type is \<^verbatim>\<open>Trailing\<close> and
  \<^verbatim>\<open>Stop\<close> when it is \<^verbatim>\<open>Initial\<close>.
\<close>

theorem stop_breach_closes:
  assumes reach: "reachable st"
    and pos: "active_trades st symbol = Some p"
    and rb: "read_bars prices_close upper_band lower_band sma = Inr b"
    and breach: "spec_stop_breached p (current_price b)"
  shows "\<exists>out st'.
     bollinger_signal symbol prices_close upper_band lower_band sma now st = Inr (out, st')
     \<and> stop_loss (fst (stop_management (track_extremes p (current_price b)) (current_price b)))
          = spec_active_stop p (current_price b)
     \<and> stop_type (fst (stop_management (track_extremes p (current_price b)) (current_price b)))
          = spec_stop_type p (current_price b)
     \<and> active_trades st' symbol = None
     \<and> trade_history st' =
          deque_append trade_history_maxlen (trade_history st)
            \<lparr>t_symbol = symbol, t_entry_price = entry_price p,
             t_exit_price = current_price b, t_signal_type = signal p,
             t_pnl = spec_unrealized_pnl p (current_price b) - TRADING_FEE * 200,
             t_reason = (if spec_stop_type p (current_price b) = ''Trailing''
                         then ''Trailing'' else ''Stop''),
             t_timestamp = now\<rparr>
     \<and> (spec_stop_type p (current_price b) = ''Trailing''
          \<or> spec_stop_type p (current_price b) = ''Initial'')"
proof -
  have ok: "position_ok p" using reach pos by (rule reachable_position_ok)
  show ?thesis
    using breach spec_stop_type_cases [of p "current_price b"]
    by (simp add: bollinger_signal_read [OF rb] evaluate_bars_open [OF pos ok] Let_def
        stored_stop_spec trade_history_record_trade)
qed


lemma iloc_snoc2:
  "iloc (xs @ [a, b]) (- 1) = Inr b" "iloc (xs @ [a, b]) (- 2) = Inr a"
proof -
  have n1: "nat (1 + int (length xs)) = Suc (length xs)" "nat (int (length xs) + 1) = Suc (length xs)"
    by simp_all
  show "iloc (xs @ [a, b]) (- 1) = Inr b"
    by (simp add: iloc_def Let_def nth_append n1)
  show "iloc (xs @ [a, b]) (- 2) = Inr a"
    by (simp add: iloc_def Let_def nth_append)
qed

lemma read_bars_snoc2:
  "read_bars (ps @ [pp, cp]) (us @ [pu, cu]) (ls @ [pl, cl]) (ms @ [pm, cm]) =
     Inr \<lparr>current_price = cp, previous_price = pp, current_upper = cu,
          current_lower = cl, current_sma = cm, previous_upper = pu,
          previous_lower = pl\<rparr>"
  by (simp add: read_bars_def iloc_snoc2)

lemmas read_bars_two = read_bars_snoc2 [of "[]" _ _ "[]" _ _ "[]" _ _ "[]", simplified]

lemma example_long_state_reachable: "reachable example_long_state"
proof -
  have rb: "read_bars [990, 1000] [Some 995, Some 998] [Some 945, Some 942] [Some 970, Some 970] =
      Inr \<lparr>current_price = 1000, previous_price = 990, current_upper = Some 998,
          current_lower = Some 942, current_sma = Some 970, previous_upper = Some 995,
          previous_lower = Some 945\<rparr>"
    by (rule read_bars_two)
  have ev: "bollinger_signal ''BTCUSDT'' [990, 1000] [Some 995, Some 998] [Some 945, Some 942]
       [Some 970, Some 970] 1 initial_state =
     Inr ((''BUY'', NEW_LONG,
          Some \<lparr>in_position = True, pi_entry_price = 1000, pi_pnl = 0,
                current_stop = 980, pi_stop_type = ''Initial'',
                position_type = ''BUY''\<rparr>), example_long_state)"
    unfolding bollinger_signal_read [OF rb]
    by (simp add: evaluate_bars_flat initial_state_def new_buy_signal_def Let_def
        example_long_state_def example_long_def)
  have il: "iloc [990, 1000 :: real] (- 1) = Inr 1000"
    using iloc_snoc2(1) [of "[]" 990 "1000 :: real"] by simp
  show ?thesis
    by (rule reachable_step [OF reachable_init ev il]) simp
qed

lemma example_long_state_position:
  "active_trades example_long_state ''BTCUSDT'' = Some example_long"
  by (simp add: example_long_state_def)

theorem stop_breach_closes_witness:
  "reachable example_long_state
   \<and> active_trades example_long_state ''BTCUSDT'' = Some example_long
   \<and> read_bars [1000, 970] [Some 1010, Some 1010] [Some 950, Some 950] [Some 980, Some 980] =
       Inr \<lparr>current_price = 970, previous_price = 1000, current_upper = Some 1010,
            current_lower = Some 950, current_sma = Some 980, previous_upper = Some 1010,
            previous_lower = Some 950\<rparr>
   \<and> spec_stop_breached example_long 970
   \<and> (\<exists>out st'.
        bollinger_signal ''BTCUSDT'' [1000, 970] [Some 1010, Some 1010] [Some 950, Some 950]
          [Some 980, Some 980] 2 example_long_state = Inr (out, st')
        \<and> active_trades st' ''BTCUSDT'' = None
        \<and> trade_history st' =
            [\<lparr>t_symbol = ''BTCUSDT'', t_entry_price = 1000, t_exit_price = 970,
              t_signal_type = ''BUY'', t_pnl = - 3.2, t_reason = ''Stop'', t_timestamp = 2\<rparr>])"
proof -
  have rb: "read_bars [1000, 970] [Some 1010, Some 1010] [Some 950, Some 950] [Some 980, Some 980] =
       Inr \<lparr>current_price = 970, previous_price = 1000, current_upper = Some 1010,
            current_lower = Some 950, current_sma = Some 980, previous_upper = Some 1010,
            previous_lower = Some 950\<rparr>"
    by (rule read_bars_two)
  have br: "spec_stop_breached example_long 970"
    by (simp add: spec_stop_breached_def spec_active_stop_def spec_unrealized_pnl_def example_long_def)
  have br': "spec_stop_breached example_long (current_price
       \<lparr>current_price = 970, previous_price = 1000, current_upper = Some 1010,
            current_lower = Some 950, current_sma = Some 980, previous_upper = Some 1010,
            previous_lower = Some 950\<rparr>)"
    using br by simp
  have vals: "spec_unrealized_pnl example_long 970 - TRADING_FEE * 200 = - 3.2"
    "spec_stop_type example_long 970 = ''Initial''"
    "trade_history example_long_state = []"
    by (simp_all add: spec_unrealized_pnl_def spec_stop_type_def example_long_def TRADING_FEE_def
        example_long_state_def initial_state_def)
  have fields: "entry_price example_long = 1000" "signal example_long = ''BUY''"
    by (simp_all add: example_long_def)
  from stop_breach_closes [OF example_long_state_reachable example_long_state_position rb br',
      of 2]
  obtain out st' where
    "bollinger_signal ''BTCUSDT'' [1000, 970] [Some 1010, Some 1010] [Some 950, Some 950]
          [Some 980, Some 980] 2 example_long_state = Inr (out, st')"
    "active_trades st' ''BTCUSDT'' = None"
    "trade_history st' =
            [\<lparr>t_symbol = ''BTCUSDT'', t_entry_price = 1000, t_exit_price = 970,
              t_signal_type = ''BUY'', t_pnl = - 3.2, t_reason = ''Stop'', t_timestamp = 2\<rparr>]"
    by (auto simp: vals fields deque_append_def trade_history_maxlen_def)
  with example_long_state_reachable example_long_state_position rb br show ?thesis
    by blast
qed

text \<open>
  Claim C3. Every evaluation of an open position of a reachable state either keeps the
  position and appends nothing to the ledger, or closes it and appends exactly one trade,
  whose exit reason is \<^verbatim>\<open>Stop\<close>, \<^verbatim>\<open>Trailing\<close>, \<^verbatim>\<open>SMA\<close> or \<^verbatim>\<open>Reversal\<close> and whose
  net P&L is the gross P&L percent minus \<open>TRADING_FEE * 2 * 100\<close>; with the fee rate
  0.001 that deduction is 0.2.
\<close>

theorem close_records_net_pnl:
  assumes reach: "reachable st"
    and pos: "active_trades st symbol = Some p"
    and rb: "read_bars prices_close upper_band lower_band sma = Inr b"
  shows "TRADING_FEE * 2 * 100 = 0.2
   \<and> (\<exists>out st'.
        bollinger_signal symbol prices_close upper_band lower_band sma now st = Inr (out, st')
        \<and> (st' = set_active_trade symbol (spec_updated_position p (current_price b)) st
           \<or> (\<exists>r. (r = ''Stop'' \<or> r = ''Trailing'' \<or> r = ''SMA'' \<or> r = ''Reversal'')
                \<and> trade_history st' =
                    deque_append trade_history_maxlen (trade_history st)
                      \<lparr>t_symbol = symbol, t_entry_price = entry_price p,
                       t_exit_price = current_price b, t_signal_type = signal p,
                       t_pnl = spec_unrealized_pnl p (current_price b) - TRADING_FEE * 2 * 100,
                       t_reason = r, t_timestamp = now\<rparr>
                \<and> (if r = ''Reversal''
                    then \<exists>q. active_trades st' symbol = Some q \<and> entry_price q = current_price b
                           \<and> entry_time q = now
                    else active_trades st' symbol = None))))"
proof -
  define cp where "cp = current_price b"
  define net where "net = spec_unrealized_pnl p cp - TRADING_FEE * 200"
  define closed where "closed = (\<lambda>st' :: state. \<exists>r. (r = ''Stop'' \<or> r = ''Trailing'' \<or> r = ''SMA'' \<or> r = ''Reversal'')
                \<and> trade_history st' =
                    deque_append trade_history_maxlen (trade_history st)
                      \<lparr>t_symbol = symbol, t_entry_price = entry_price p,
                       t_exit_price = cp, t_signal_type = signal p,
                       t_pnl = spec_unrealized_pnl p cp - TRADING_FEE * 2 * 100,
                       t_reason = r, t_timestamp = now\<rparr>
                \<and> (if r = ''Reversal''
                    then \<exists>q. active_trades st' symbol = Some q \<and> entry_price q = cp
                           \<and> entry_time q = now
                    else active_trades st' symbol = None))"
  have ok: "position_ok p" using reach pos by (rule reachable_position_ok)
  have fee: "TRADING_FEE * 2 * 100 = 0.2" and fee2: "TRADING_FEE * 2 * 100 = TRADING_FEE * 200"
    by (simp_all add: TRADING_FEE_def)
  note ev = evaluate_bars_open [OF pos ok, of b now, unfolded Let_def,
      folded cp_def, folded net_def]
  have closing: "closed (del_active_trade symbol
        (record_trade symbol (entry_price p) cp (signal p) net r now st))"
    if "r = ''Stop'' \<or> r = ''Trailing'' \<or> r = ''SMA''" for r
    unfolding closed_def using that
    by (intro exI [of _ r]) (auto simp: trade_history_record_trade net_def fee2)
  have reversing: "closed (set_active_trade symbol
        \<lparr>entry_price = cp, signal = s, entry_time = now, highest_since_entry = cp,
         lowest_since_entry = cp, stop_loss = x, stop_type = ''Initial''\<rparr>
        (record_trade symbol (entry_price p) cp (signal p) net ''Reversal'' now st))" for s x
    unfolding closed_def
    by (intro exI [of _ "''Reversal''"]) (simp add: trade_history_record_trade net_def fee2)
  have "snd (evaluate_bars symbol b now st) = set_active_trade symbol (spec_updated_position p cp) st
      \<or> closed (snd (evaluate_bars symbol b now st))"
  proof (cases "spec_stop_breached p cp")
    case True
    then have "snd (evaluate_bars symbol b now st) =
        del_active_trade symbol
          (record_trade symbol (entry_price p) cp (signal p) net
             (if spec_stop_type p cp = ''Trailing'' then ''Trailing'' else ''Stop'') now st)"
      by (simp only: ev if_P if_True if_False snd_conv)
    then show ?thesis using closing [of "''Trailing''"] closing [of "''Stop''"]
      by (cases "spec_stop_type p cp = ''Trailing''") simp_all
  next
    case nb: False
    show ?thesis
    proof (cases "at_sma b")
      case True
      with nb have "snd (evaluate_bars symbol b now st) =
        del_active_trade symbol
          (record_trade symbol (entry_price p) cp (signal p) net ''SMA'' now st)"
        by (simp only: ev if_P if_not_P if_True if_False snd_conv)
      then show ?thesis using closing [of "''SMA''"] by simp
    next
      case ns: False
      show ?thesis
      proof (cases "(signal p = ''BUY'' \<and> new_sell_signal b) \<or> (signal p = ''SELL'' \<and> new_buy_signal b)")
        case True
        with nb ns have "\<exists>s x. snd (evaluate_bars symbol b now st) =
          set_active_trade symbol
            \<lparr>entry_price = cp, signal = s, entry_time = now, highest_since_entry = cp,
             lowest_since_entry = cp, stop_loss = x, stop_type = ''Initial''\<rparr>
            (record_trade symbol (entry_price p) cp (signal p) net ''Reversal'' now st)"
          by (simp only: ev if_P if_not_P if_True if_False snd_conv) blast
        then show ?thesis using reversing by auto
      next
        case False
        with nb ns have "snd (evaluate_bars symbol b now st) =
            set_active_trade symbol (spec_updated_position p cp) st"
          by (simp only: ev if_P if_not_P if_True if_False snd_conv)
        then show ?thesis by simp
      qed
    qed
  qed
  then have main: "snd (evaluate_bars symbol b now st) =
        set_active_trade symbol (spec_updated_position p (current_price b)) st
      \<or> (\<exists>r. (r = ''Stop'' \<or> r = ''Trailing'' \<or> r = ''SMA'' \<or> r = ''Reversal'')
                \<and> trade_history (snd (evaluate_bars symbol b now st)) =
                    deque_append trade_history_maxlen (trade_history st)
                      \<lparr>t_symbol = symbol, t_entry_price = entry_price p,
                       t_exit_price = current_price b, t_signal_type = signal p,
                       t_pnl = spec_unrealized_pnl p (current_price b) - TRADING_FEE * 2 * 100,
                       t_reason = r, t_timestamp = now\<rparr>
                \<and> (if r = ''Reversal''
                    then \<exists>q. active_trades (snd (evaluate_bars symbol b now st)) symbol = Some q
                           \<and> entry_price q = current_price b \<and> entry_time q = now
                    else active_trades (snd (evaluate_bars symbol b now st)) symbol = None))"
    unfolding closed_def cp_def .
  show ?thesis
  proof (intro conjI exI)
    show "TRADING_FEE * 2 * 100 = 0.2" by (rule fee)
    show "bollinger_signal symbol prices_close upper_band lower_band sma now st =
        Inr (fst (evaluate_bars symbol b now st), snd (evaluate_bars symbol b now st))"
      by (simp add: bollinger_signal_read [OF rb])
    show "snd (evaluate_bars symbol b now st) =
        set_active_trade symbol (spec_updated_position p (current_price b)) st
      \<or> (\<exists>r. (r = ''Stop'' \<or> r = ''Trailing'' \<or> r = ''SMA'' \<or> r = ''Reversal'')
                \<and> trade_history (snd (evaluate_bars symbol b now st)) =
                    deque_append trade_history_maxlen (trade_history st)
                      \<lparr>t_symbol = symbol, t_entry_price = entry_price p,
                       t_exit_price = current_price b, t_signal_type = signal p,
                       t_pnl = spec_unrealized_pnl p (current_price b) - TRADING_FEE * 2 * 100,
                       t_reason = r, t_timestamp = now\<rparr>
                \<and> (if r = ''Reversal''
                    then \<exists>q. active_trades (snd (evaluate_bars symbol b now st)) symbol = Some q
                           \<and> entry_price q = current_price b \<and> entry_time q = now
                    else active_trades (snd (evaluate_bars symbol b now st)) symbol = None))"
      by (rule main)
  qed
qed


lemma position_ok_bracket:
  "position_ok p \<Longrightarrow> lowest_since_entry p \<le> entry_price p \<and> entry_price p \<le> highest_since_entry p"
  by (simp add: position_ok_def)

lemma updated_position_fields:
  "entry_price (spec_updated_position p cp) = entry_price p"
  "signal (spec_updated_position p cp) = signal p"
  "entry_time (spec_updated_position p cp) = entry_time p"
  "highest_since_entry (spec_updated_position p cp) = max (highest_since_entry p) cp"
  "lowest_since_entry (spec_updated_position p cp) = min (lowest_since_entry p) cp"
  "stop_loss (spec_updated_position p cp) = spec_active_stop p cp"
  "stop_type (spec_updated_position p cp) = spec_stop_type p cp"
  by (simp_all add: spec_updated_position_def track_extremes_def)

text \<open>
  Claim C10. Every open position of a reachable state has
  \<open>lowest_since_entry \<le> entry_price \<le> highest_since_entry\<close>, and so has the position
  that an evaluation leaves: either it was opened in this evaluation (a fresh entry or a
  reversal) with both extremes at the entry price, or it continues the position held
  before, its highest value the maximum and its lowest value the minimum of the former
  one and the current price.
\<close>

theorem extremes_bracket_entry:
  assumes reach: "reachable st"
    and rb: "read_bars prices_close upper_band lower_band sma = Inr b"
  shows "(\<forall>p. active_trades st symbol = Some p \<longrightarrow>
            lowest_since_entry p \<le> entry_price p \<and> entry_price p \<le> highest_since_entry p)
   \<and> (\<exists>out st'.
        bollinger_signal symbol prices_close upper_band lower_band sma now st = Inr (out, st')
        \<and> (\<forall>q. active_trades st' symbol = Some q \<longrightarrow>
              lowest_since_entry q \<le> entry_price q \<and> entry_price q \<le> highest_since_entry q
              \<and> ((entry_price q = current_price b \<and> highest_since_entry q = current_price b
                   \<and> lowest_since_entry q = current_price b)
                 \<or> (\<exists>p. active_trades st symbol = Some p
                       \<and> entry_price q = entry_price p
                       \<and> highest_since_entry q = max (highest_since_entry p) (current_price b)
                       \<and> lowest_since_entry q = min (lowest_since_entry p) (current_price b)
                       \<and> highest_since_entry p \<le> highest_since_entry q
                       \<and> lowest_since_entry q \<le> lowest_since_entry p))))"
proof -
  have before: "\<forall>p. active_trades st symbol = Some p \<longrightarrow>
            lowest_since_entry p \<le> entry_price p \<and> entry_price p \<le> highest_since_entry p"
    using reachable_position_ok [OF reach] position_ok_bracket by blast
  define e where "e = evaluate_bars symbol b now st"
  have after: "lowest_since_entry q \<le> entry_price q \<and> entry_price q \<le> highest_since_entry q
      \<and> ((entry_price q = current_price b \<and> highest_since_entry q = current_price b
           \<and> lowest_since_entry q = current_price b)
         \<or> (\<exists>p. active_trades st symbol = Some p
               \<and> entry_price q = entry_price p
               \<and> highest_since_entry q = max (highest_since_entry p) (current_price b)
               \<and> lowest_since_entry q = min (lowest_since_entry p) (current_price b)
               \<and> highest_since_entry p \<le> highest_since_entry q
               \<and> lowest_since_entry q \<le> lowest_since_entry p))"
    if q: "active_trades (snd e) symbol = Some q" for q
  proof (cases "active_trades st symbol")
    case None
    with q show ?thesis
      by (auto simp: e_def evaluate_bars_flat Let_def split: if_splits)
  next
    case (Some p)
    have ok: "position_ok p" using reach Some by (rule reachable_position_ok)
    note br = position_ok_bracket [OF ok]
    from q have "q = spec_updated_position p (current_price b)
       \<or> (entry_price q = current_price b \<and> highest_since_entry q = current_price b
           \<and> lowest_since_entry q = current_price b)"
      by (auto simp: e_def evaluate_bars_open [OF Some ok] Let_def split: if_splits)
    then show ?thesis
    proof
      assume "q = spec_updated_position p (current_price b)"
      with Some br show ?thesis by (auto simp: updated_position_fields)
    next
      assume "entry_price q = current_price b \<and> highest_since_entry q = current_price b
           \<and> lowest_since_entry q = current_price b"
      then show ?thesis by simp
    qed
  qed
  show ?thesis
  proof (intro conjI exI)
    show "\<forall>p. active_trades st symbol = Some p \<longrightarrow>
            lowest_since_entry p \<le> entry_price p \<and> entry_price p \<le> highest_since_entry p"
      by (rule before)
    show "bollinger_signal symbol prices_close upper_band lower_band sma now st =
        Inr (fst e, snd e)"
      by (simp add: bollinger_signal_read [OF rb] e_def)
    show "\<forall>q. active_trades (snd e) symbol = Some q \<longrightarrow>
              lowest_since_entry q \<le> entry_price q \<and> entry_price q \<le> highest_since_entry q
              \<and> ((entry_price q = current_price b \<and> highest_since_entry q = current_price b
                   \<and> lowest_since_entry q = current_price b)
                 \<or> (\<exists>p. active_trades st symbol = Some p
                       \<and> entry_price q = entry_price p
                       \<and> highest_since_entry q = max (highest_since_entry p) (current_price b)
                       \<and> lowest_since_entry q = min (lowest_since_entry p) (current_price b)
                       \<and> highest_since_entry p \<le> highest_since_entry q
                       \<and> lowest_since_entry q \<le> lowest_since_entry p))"
      using after by blast
  qed
qed


lemma set_active_trade_only_positions:
  "set_active_trade symbol q st = st\<lparr>active_trades := active_trades (set_active_trade symbol q st)\<rparr>"
  by (simp add: set_active_trade_def)

text \<open>
  Claim C4. In an evaluation with the bands computed from the evaluated closes (width
  multiplier not negative), an open position that is neither stopped out nor at the
  moving average and meets a breakout signal against its direction is closed with the
  exit reason \<^verbatim>\<open>Reversal\<close>, and a position in the opposite direction is opened in the
  same evaluation at the current price with an \<^verbatim>\<open>Initial\<close> stop (price times 0.98 for
  \<^verbatim>\<open>BUY\<close>, times 1.02 for \<^verbatim>\<open>SELL\<close>). Every evaluation that is not such a reversal either
  changes nothing but the stored position, or leaves no position for the asset.
\<close>

theorem reversal_closes_and_reopens:
  assumes reach: "reachable st"
    and rb: "read_bars prices_close upper_band lower_band sma = Inr b"
    and bands: "calculate_bollinger_bands prices_close len std_dev = Some (upper_band, sma, lower_band)"
    and k: "0 \<le> std_dev"
  shows "\<exists>out st'.
     bollinger_signal symbol prices_close upper_band lower_band sma now st = Inr (out, st')
     \<and> (\<forall>p. active_trades st symbol = Some p
            \<and> \<not> spec_stop_breached p (current_price b) \<and> \<not> at_sma b
            \<and> ((signal p = ''BUY'' \<and> new_sell_signal b) \<or> (signal p = ''SELL'' \<and> new_buy_signal b))
          \<longrightarrow>
            (let cp = current_price b;
                 net = spec_unrealized_pnl p cp - TRADING_FEE * 200;
                 new_signal = (if signal p = ''BUY'' then ''SELL'' else ''BUY'');
                 new_stop = (if new_signal = ''BUY'' then cp * 0.98 else cp * 1.02)
             in out = (new_signal, Reversed net,
                       Some \<lparr>in_position = True, pi_entry_price = cp, pi_pnl = 0,
                             current_stop = new_stop, pi_stop_type = ''Initial'',
                             position_type = new_signal\<rparr>)
              \<and> st' = set_active_trade symbol
                        \<lparr>entry_price = cp, signal = new_signal, entry_time = now,
                         highest_since_entry = cp, lowest_since_entry = cp,
                         stop_loss = new_stop, stop_type = ''Initial''\<rparr>
                        (record_trade symbol (entry_price p) cp (signal p) net ''Reversal'' now st)))
     \<and> (st' = st\<lparr>active_trades := active_trades st'\<rparr>
        \<or> active_trades st' symbol = None
        \<or> (\<exists>p net. active_trades st symbol = Some p
              \<and> \<not> spec_stop_breached p (current_price b) \<and> \<not> at_sma b
              \<and> ((signal p = ''BUY'' \<and> new_sell_signal b) \<or> (signal p = ''SELL'' \<and> new_buy_signal b))
              \<and> fst (snd out) = Reversed net))"
proof -
  define cp where "cp = current_price b"
  define e where "e = evaluate_bars symbol b now st"
  note excl = signals_exclusive [OF bands k rb]
  have part1: "let cp = current_price b;
                 net = spec_unrealized_pnl p cp - TRADING_FEE * 200;
                 new_signal = (if signal p = ''BUY'' then ''SELL'' else ''BUY'');
                 new_stop = (if new_signal = ''BUY'' then cp * 0.98 else cp * 1.02)
             in fst e = (new_signal, Reversed net,
                       Some \<lparr>in_position = True, pi_entry_price = cp, pi_pnl = 0,
                             current_stop = new_stop, pi_stop_type = ''Initial'',
                             position_type = new_signal\<rparr>)
              \<and> snd e = set_active_trade symbol
                        \<lparr>entry_price = cp, signal = new_signal, entry_time = now,
                         highest_since_entry = cp, lowest_since_entry = cp,
                         stop_loss = new_stop, stop_type = ''Initial''\<rparr>
                        (record_trade symbol (entry_price p) cp (signal p) net ''Reversal'' now st)"
    if h: "active_trades st symbol = Some p
            \<and> \<not> spec_stop_breached p (current_price b) \<and> \<not> at_sma b
            \<and> ((signal p = ''BUY'' \<and> new_sell_signal b) \<or> (signal p = ''SELL'' \<and> new_buy_signal b))"
    for p
  proof -
    have ok: "position_ok p" using reach h by (blast intro: reachable_position_ok)
    from h excl have "(signal p = ''BUY'' \<and> new_sell_signal b \<and> \<not> new_buy_signal b)
        \<or> (signal p = ''SELL'' \<and> new_buy_signal b \<and> \<not> new_sell_signal b)"
      by blast
    then show ?thesis
    proof
      assume "signal p = ''BUY'' \<and> new_sell_signal b \<and> \<not> new_buy_signal b"
      with h show ?thesis
        by (simp add: e_def evaluate_bars_open [of st symbol p, OF _ ok] Let_def)
    next
      assume "signal p = ''SELL'' \<and> new_buy_signal b \<and> \<not> new_sell_signal b"
      with h show ?thesis
        by (simp add: e_def evaluate_bars_open [of st symbol p, OF _ ok] Let_def)
    qed
  qed
  have part2: "snd e = st\<lparr>active_trades := active_trades (snd e)\<rparr>
        \<or> active_trades (snd e) symbol = None
        \<or> (\<exists>p net. active_trades st symbol = Some p
              \<and> \<not> spec_stop_breached p (current_price b) \<and> \<not> at_sma b
              \<and> ((signal p = ''BUY'' \<and> new_sell_signal b) \<or> (signal p = ''SELL'' \<and> new_buy_signal b))
              \<and> fst (snd (fst e)) = Reversed net)"
  proof (cases "active_trades st symbol")
    case None
    have "snd e = st\<lparr>active_trades := active_trades (snd e)\<rparr>"
      by (simp add: e_def evaluate_bars_flat [OF None] Let_def set_active_trade_def)
    then show ?thesis by simp
  next
    case (Some p)
    have ok: "position_ok p" using reach Some by (rule reachable_position_ok)
    note ev = evaluate_bars_open [OF Some ok, of b now, unfolded Let_def, folded e_def]
    show ?thesis
    proof (cases "spec_stop_breached p (current_price b) \<or> at_sma b")
      case True
      then have "active_trades (snd e) symbol = None"
        by (auto simp: ev)
      then show ?thesis by simp
    next
      case no_exit: False
      show ?thesis
      proof (cases "(signal p = ''BUY'' \<and> new_sell_signal b) \<or> (signal p = ''SELL'' \<and> new_buy_signal b)")
        case True
        with no_exit have "\<exists>net. fst (snd (fst e)) = Reversed net"
          by (auto simp: ev)
        with Some no_exit True show ?thesis by blast
      next
        case False
        with no_exit have "snd e = set_active_trade symbol (spec_updated_position p (current_price b)) st"
          by (auto simp: ev)
        then have "snd e = st\<lparr>active_trades := active_trades (snd e)\<rparr>"
          by (simp add: set_active_trade_def)
        then show ?thesis by simp
      qed
    qed
  qed
  show ?thesis
  proof (intro exI conjI)
    show "bollinger_signal symbol prices_close upper_band lower_band sma now st = Inr (fst e, snd e)"
      by (simp add: bollinger_signal_read [OF rb] e_def)
  qed (use part1 part2 in blast)+
qed

lemma example_long_ok: "position_ok example_long"
  by (simp add: position_ok_def example_long_def)

lemma example_trailing_ok: "position_ok example_trailing"
  by (simp add: position_ok_def example_trailing_def)

lemma example_open:
  "bollinger_signal ''BTCUSDT'' [990, 1000] [Some 995, Some 998] [Some 945, Some 942]
       [Some 970, Some 970] 1 initial_state =
     Inr ((''BUY'', NEW_LONG,
          Some \<lparr>in_position = True, pi_entry_price = 1000, pi_pnl = 0,
                current_stop = 980, pi_stop_type = ''Initial'',
                position_type = ''BUY''\<rparr>), example_long_state)"
proof -
  have rb: "read_bars [990, 1000] [Some 995, Some 998] [Some 945, Some 942] [Some 970, Some 970] =
      Inr \<lparr>current_price = 1000, previous_price = 990, current_upper = Some 998,
          current_lower = Some 942, current_sma = Some 970, previous_upper = Some 995,
          previous_lower = Some 945\<rparr>"
    by (rule read_bars_two)
  show ?thesis
    unfolding bollinger_signal_read [OF rb]
    by (simp add: evaluate_bars_flat initial_state_def new_buy_signal_def Let_def
        example_long_state_def example_long_def)
qed

lemma example_hold:
  "bollinger_signal ''BTCUSDT'' [1000, 1050] [Some 1060, Some 1070] [Some 950, Some 950]
       [Some 1005, Some 1010] 2 example_long_state =
     Inr ((''BUY'', Stop_active ''Trailing'',
          Some \<lparr>in_position = True, pi_entry_price = 1000, pi_pnl = 5,
                current_stop = 1029, pi_stop_type = ''Trailing'',
                position_type = ''BUY''\<rparr>),
          set_active_trade ''BTCUSDT'' example_trailing initial_state)"
proof -
  have rb: "read_bars [1000, 1050] [Some 1060, Some 1070] [Some 950, Some 950] [Some 1005, Some 1010] =
      Inr \<lparr>current_price = 1050, previous_price = 1000, current_upper = Some 1070,
          current_lower = Some 950, current_sma = Some 1010, previous_upper = Some 1060,
          previous_lower = Some 950\<rparr>"
    by (rule read_bars_two)
  have pnl: "spec_unrealized_pnl example_long 1050 = 5"
    by (simp add: spec_unrealized_pnl_def example_long_def)
  have r: "py_round2 5 = 5" by (simp add: py_round2_def Let_def)
  have upd: "spec_updated_position example_long 1050 = example_trailing"
    by (simp add: spec_updated_position_def track_extremes_def spec_active_stop_def
        spec_stop_type_def spec_unrealized_pnl_def example_long_def example_trailing_def)
  show ?thesis
    unfolding bollinger_signal_read [OF rb]
    by (simp add: evaluate_bars_open [OF example_long_state_position example_long_ok] Let_def
        pnl r upd spec_stop_breached_def spec_active_stop_def spec_stop_type_def at_sma_def
        new_sell_signal_def new_buy_signal_def)
      (simp add: example_long_def example_long_state_def set_active_trade_def)
qed


lemma example_loosen:
  "bollinger_signal ''BTCUSDT'' [1050, 1005] [Some 1070, Some 1070] [Some 950, Some 970]
       [Some 1010, Some 1020] 3 (set_active_trade ''BTCUSDT'' example_trailing initial_state) =
     Inr ((''BUY'', Stop_active ''Initial'',
          Some \<lparr>in_position = True, pi_entry_price = 1000, pi_pnl = 1 / 2,
                current_stop = 980, pi_stop_type = ''Initial'',
                position_type = ''BUY''\<rparr>),
          set_active_trade ''BTCUSDT'' example_reset initial_state)"
proof -
  have rb: "read_bars [1050, 1005] [Some 1070, Some 1070] [Some 950, Some 970] [Some 1010, Some 1020] =
      Inr \<lparr>current_price = 1005, previous_price = 1050, current_upper = Some 1070,
          current_lower = Some 970, current_sma = Some 1020, previous_upper = Some 1070,
          previous_lower = Some 950\<rparr>"
    by (rule read_bars_two)
  have pos: "active_trades (set_active_trade ''BTCUSDT'' example_trailing initial_state) ''BTCUSDT''
      = Some example_trailing"
    by simp
  have pnl: "spec_unrealized_pnl example_trailing 1005 = 1 / 2"
    by (simp add: spec_unrealized_pnl_def example_trailing_def)
  have r: "py_round2 (1 / 2) = 1 / 2" by (simp add: py_round2_def Let_def)
  have upd: "spec_updated_position example_trailing 1005 = example_reset"
    by (simp add: spec_updated_position_def track_extremes_def spec_active_stop_def
        spec_stop_type_def spec_unrealized_pnl_def example_trailing_def example_reset_def)
  show ?thesis
    unfolding bollinger_signal_read [OF rb]
    by (simp add: evaluate_bars_open [OF pos example_trailing_ok] Let_def
        pnl r upd spec_stop_breached_def spec_active_stop_def spec_stop_type_def at_sma_def
        new_sell_signal_def new_buy_signal_def)
      (simp add: example_trailing_def set_active_trade_def)
qed

text \<open>
  While the unrealized P&L is at least 1 percent the stored stop only tightens: the
  active stop is not below the previous stop of a long position, and not above that of a
  short one.
\<close>

lemma stop_ratchets_while_trailing:
  assumes "position_ok p" and "spec_unrealized_pnl p cp \<ge> 1"
  shows "if signal p = ''BUY'' then stop_loss p \<le> spec_active_stop p cp
         else spec_active_stop p cp \<le> stop_loss p"
  using assms by (simp add: spec_active_stop_def)

text \<open>
  Claim C1 asks the stored stop of a long position never to decrease while the position
  is open. The run below opens a long position at 1000, evaluates it at 1050, where the
  stop trails to 1029, and evaluates it again at 1005: the unrealized P&L is below
  1 percent, the branch for the initial stop overwrites the stored stop with 980, and the
  position stays open with a lower stop.
\<close>

theorem stop_loss_loosens_example:
  "\<exists>out1 st1 out2 st2 out3 st3 p2 p3.
     bollinger_signal ''BTCUSDT'' [990, 1000] [Some 995, Some 998] [Some 945, Some 942]
       [Some 970, Some 970] 1 initial_state = Inr (out1, st1)
   \<and> bollinger_signal ''BTCUSDT'' [1000, 1050] [Some 1060, Some 1070] [Some 950, Some 950]
       [Some 1005, Some 1010] 2 st1 = Inr (out2, st2)
   \<and> bollinger_signal ''BTCUSDT'' [1050, 1005] [Some 1070, Some 1070] [Some 950, Some 970]
       [Some 1010, Some 1020] 3 st2 = Inr (out3, st3)
   \<and> active_trades st2 ''BTCUSDT'' = Some p2 \<and> active_trades st3 ''BTCUSDT'' = Some p3
   \<and> signal p2 = ''BUY'' \<and> signal p3 = ''BUY''
   \<and> entry_price p2 = 1000 \<and> entry_price p3 = 1000
   \<and> entry_time p2 = 1 \<and> entry_time p3 = 1
   \<and> trade_history st3 = []
   \<and> stop_loss p2 = 1029 \<and> stop_loss p3 = 980 \<and> stop_loss p3 < stop_loss p2"
proof -
  have "active_trades (set_active_trade ''BTCUSDT'' example_trailing initial_state) ''BTCUSDT''
      = Some example_trailing"
    "active_trades (set_active_trade ''BTCUSDT'' example_reset initial_state) ''BTCUSDT''
      = Some example_reset"
    "trade_history (set_active_trade ''BTCUSDT'' example_reset initial_state) = []"
    by (simp_all add: initial_state_def)
  moreover have "signal example_trailing = ''BUY''" "signal example_reset = ''BUY''"
    "entry_price example_trailing = 1000" "entry_price example_reset = 1000"
    "entry_time example_trailing = 1" "entry_time example_reset = 1"
    "stop_loss example_trailing = 1029" "stop_loss example_reset = 980"
    "stop_loss example_reset < stop_loss example_trailing"
    by (simp_all add: example_trailing_def example_reset_def)
  ultimately show ?thesis
    using example_open example_hold example_loosen by blast
qed


lemma example_sma_bars:
  "read_bars [1000, 1005] [Some 1010, Some 1010] [Some 990, Some 998] [Some 1000, Some 1004] =
      Inr \<lparr>current_price = 1005, previous_price = 1000, current_upper = Some 1010,
          current_lower = Some 998, current_sma = Some 1004, previous_upper = Some 1010,
          previous_lower = Some 990\<rparr>"
  by (rule read_bars_two)

lemma example_sma_exit:
  "bollinger_signal ''BTCUSDT'' [1000, 1005] [Some 1010, Some 1010] [Some 990, Some 998]
       [Some 1000, Some 1004] 2 example_long_state =
     Inr ((''NEUTRAL'', Exit_at_SMA (3 / 10), None),
          del_active_trade ''BTCUSDT''
            (record_trade ''BTCUSDT'' 1000 1005 ''BUY'' (3 / 10) ''SMA'' 2 example_long_state))"
proof -
  have pnl: "spec_unrealized_pnl example_long 1005 = 1 / 2"
    by (simp add: spec_unrealized_pnl_def example_long_def)
  have f: "entry_price example_long = 1000" "signal example_long = ''BUY''"
    by (simp_all add: example_long_def)
  have nb: "\<not> spec_stop_breached example_long 1005"
    by (simp add: spec_stop_breached_def spec_active_stop_def pnl) (simp add: example_long_def)
  show ?thesis
    unfolding bollinger_signal_read [OF example_sma_bars]
    by (simp add: evaluate_bars_open [OF example_long_state_position example_long_ok] Let_def
        pnl f nb at_sma_def TRADING_FEE_def)
qed

theorem close_records_net_pnl_witness:
  "reachable example_long_state
   \<and> active_trades example_long_state ''BTCUSDT'' = Some example_long
   \<and> read_bars [1000, 1005] [Some 1010, Some 1010] [Some 990, Some 998] [Some 1000, Some 1004] =
      Inr \<lparr>current_price = 1005, previous_price = 1000, current_upper = Some 1010,
          current_lower = Some 998, current_sma = Some 1004, previous_upper = Some 1010,
          previous_lower = Some 990\<rparr>
   \<and> TRADING_FEE * 2 * 100 = 0.2
   \<and> (\<exists>out st'.
        bollinger_signal ''BTCUSDT'' [1000, 1005] [Some 1010, Some 1010] [Some 990, Some 998]
          [Some 1000, Some 1004] 2 example_long_state = Inr (out, st')
        \<and> active_trades st' ''BTCUSDT'' = None
        \<and> trade_history st' =
            [\<lparr>t_symbol = ''BTCUSDT'', t_entry_price = 1000, t_exit_price = 1005,
              t_signal_type = ''BUY'', t_pnl = 3 / 10, t_reason = ''SMA'', t_timestamp = 2\<rparr>])"
proof -
  note th = close_records_net_pnl [OF example_long_state_reachable example_long_state_position
      example_sma_bars, of 2]
  then have fee: "TRADING_FEE * 2 * 100 = 0.2" by blast
  from th obtain out st' where call:
    "bollinger_signal ''BTCUSDT'' [1000, 1005] [Some 1010, Some 1010] [Some 990, Some 998]
          [Some 1000, Some 1004] 2 example_long_state = Inr (out, st')"
    by blast
  with example_sma_exit have st': "st' = del_active_trade ''BTCUSDT''
            (record_trade ''BTCUSDT'' 1000 1005 ''BUY'' (3 / 10) ''SMA'' 2 example_long_state)"
    by simp
  have "active_trades st' ''BTCUSDT'' = None" by (simp add: st')
  moreover have "trade_history st' =
            [\<lparr>t_symbol = ''BTCUSDT'', t_entry_price = 1000, t_exit_price = 1005,
              t_signal_type = ''BUY'', t_pnl = 3 / 10, t_reason = ''SMA'', t_timestamp = 2\<rparr>]"
    by (simp add: st' trade_history_record_trade deque_append_def trade_history_maxlen_def
        example_long_state_def initial_state_def)
  ultimately show ?thesis
    using example_long_state_reachable example_long_state_position example_sma_bars fee call
    by blast
qed

lemma example_hold_bars:
  "read_bars [1000, 1050] [Some 1060, Some 1070] [Some 950, Some 950] [Some 1005, Some 1010] =
      Inr \<lparr>current_price = 1050, previous_price = 1000, current_upper = Some 1070,
          current_lower = Some 950, current_sma = Some 1010, previous_upper = Some 1060,
          previous_lower = Some 950\<rparr>"
  by (rule read_bars_two)

theorem extremes_bracket_entry_witness:
  "reachable example_long_state
   \<and> read_bars [1000, 1050] [Some 1060, Some 1070] [Some 950, Some 950] [Some 1005, Some 1010] =
      Inr \<lparr>current_price = 1050, previous_price = 1000, current_upper = Some 1070,
          current_lower = Some 950, current_sma = Some 1010, previous_upper = Some 1060,
          previous_lower = Some 950\<rparr>
   \<and> active_trades example_long_state ''BTCUSDT'' = Some example_long
   \<and> lowest_since_entry example_long \<le> entry_price example_long
   \<and> entry_price example_long \<le> highest_since_entry example_long
   \<and> (\<exists>out st' q.
        bollinger_signal ''BTCUSDT'' [1000, 1050] [Some 1060, Some 1070] [Some 950, Some 950]
          [Some 1005, Some 1010] 2 example_long_state = Inr (out, st')
        \<and> active_trades st' ''BTCUSDT'' = Some q
        \<and> lowest_since_entry q \<le> entry_price q \<and> entry_price q \<le> highest_since_entry q
        \<and> entry_price q = 1000 \<and> highest_since_entry q = 1050 \<and> lowest_since_entry q = 1000)"
proof -
  note th = extremes_bracket_entry [OF example_long_state_reachable example_hold_bars,
      of "''BTCUSDT''" 2]
  from th example_long_state_position
  have before: "lowest_since_entry example_long \<le> entry_price example_long
      \<and> entry_price example_long \<le> highest_since_entry example_long"
    by blast
  from th obtain out st' where call:
    "bollinger_signal ''BTCUSDT'' [1000, 1050] [Some 1060, Some 1070] [Some 950, Some 950]
          [Some 1005, Some 1010] 2 example_long_state = Inr (out, st')"
    and after: "\<forall>q. active_trades st' ''BTCUSDT'' = Some q \<longrightarrow>
        lowest_since_entry q \<le> entry_price q \<and> entry_price q \<le> highest_since_entry q"
    by blast
  from call example_hold have "st' = set_active_trade ''BTCUSDT'' example_trailing initial_state"
    by simp
  then have "active_trades st' ''BTCUSDT'' = Some example_trailing"
    by simp
  moreover from this after have "lowest_since_entry example_trailing \<le> entry_price example_trailing
      \<and> entry_price example_trailing \<le> highest_since_entry example_trailing"
    by blast
  moreover have "entry_price example_trailing = 1000 \<and> highest_since_entry example_trailing = 1050
      \<and> lowest_since_entry example_trailing = 1000"
    by (simp add: example_trailing_def)
  ultimately show ?thesis
    using example_long_state_reachable example_hold_bars example_long_state_position before call
    by blast
qed

lemma sqrt_49: "sqrt 49 = 7"
  using real_sqrt_abs [of 7] by simp

lemma example_windows:
  "rolling_window 3 [1004, 1003, 1005, 992] 0 = None"
  "rolling_window 3 [1004, 1003, 1005, 992] (Suc 0) = None"
  "rolling_window 3 [1004, 1003, 1005, 992] (Suc (Suc 0)) = Some [1004, 1003, 1005]"
  "rolling_window 3 [1004, 1003, 1005, 992] (Suc (Suc (Suc 0))) = Some [1003, 1005, 992]"
  by (simp_all add: rolling_window_def eval_nat_numeral)

lemma example_window_stats:
  "window_mean [1004, 1003, 1005] = 1004" "window_std [1004, 1003, 1005] = Some 1"
  "window_mean [1003, 1005, 992] = 1000" "window_std [1003, 1005, 992] = Some 7"
  by (simp_all add: window_mean_def window_std_def power2_eq_square sqrt_49)

lemma upt_4: "[0..<4] = [0, 1, 2, 3]"
  by (simp add: eval_nat_numeral upt_rec)

lemma example_bands:
  "calculate_bollinger_bands [1004, 1003, 1005, 992] 3 1 =
     Some ([None, None, Some 1005, Some 1007], [None, None, Some 1004, Some 1000],
           [None, None, Some 1003, Some 993])"
  by (simp add: calculate_bollinger_bands_def rolling_mean_def rolling_std_def Let_def upt_4
      example_windows example_window_stats series_add_def series_sub_def series_scale_def)


lemma example_reversal_bars:
  "read_bars [1004, 1003, 1005, 992] [None, None, Some 1005, Some 1007]
       [None, None, Some 1003, Some 993] [None, None, Some 1004, Some 1000] =
     Inr \<lparr>current_price = 992, previous_price = 1005, current_upper = Some 1007,
          current_lower = Some 993, current_sma = Some 1000, previous_upper = Some 1005,
          previous_lower = Some 1003\<rparr>"
  using read_bars_snoc2 [of "[1004, 1003]" 1005 992 "[None, None]" "Some 1005" "Some 1007"
      "[None, None]" "Some 1003" "Some 993" "[None, None]" "Some 1004" "Some 1000"]
  by simp

theorem reversal_closes_and_reopens_witness:
  "reachable example_long_state
   \<and> read_bars [1004, 1003, 1005, 992] [None, None, Some 1005, Some 1007]
       [None, None, Some 1003, Some 993] [None, None, Some 1004, Some 1000] =
     Inr \<lparr>current_price = 992, previous_price = 1005, current_upper = Some 1007,
          current_lower = Some 993, current_sma = Some 1000, previous_upper = Some 1005,
          previous_lower = Some 1003\<rparr>
   \<and> calculate_bollinger_bands [1004, 1003, 1005, 992] 3 1 =
       Some ([None, None, Some 1005, Some 1007], [None, None, Some 1004, Some 1000],
             [None, None, Some 1003, Some 993])
   \<and> (0::real) \<le> 1
   \<and> active_trades example_long_state ''BTCUSDT'' = Some example_long
   \<and> \<not> spec_stop_breached example_long 992
   \<and> \<not> at_sma \<lparr>current_price = 992, previous_price = 1005, current_upper = Some 1007,
          current_lower = Some 993, current_sma = Some 1000, previous_upper = Some 1005,
          previous_lower = Some 1003\<rparr>
   \<and> signal example_long = ''BUY''
   \<and> new_sell_signal \<lparr>current_price = 992, previous_price = 1005, current_upper = Some 1007,
          current_lower = Some 993, current_sma = Some 1000, previous_upper = Some 1005,
          previous_lower = Some 1003\<rparr>
   \<and> (\<exists>out st'.
        bollinger_signal ''BTCUSDT'' [1004, 1003, 1005, 992] [None, None, Some 1005, Some 1007]
          [None, None, Some 1003, Some 993] [None, None, Some 1004, Some 1000] 2
          example_long_state = Inr (out, st')
        \<and> out = (''SELL'', Reversed (- 1),
                 Some \<lparr>in_position = True, pi_entry_price = 992, pi_pnl = 0,
                       current_stop = 1011.84, pi_stop_type = ''Initial'',
                       position_type = ''SELL''\<rparr>)
        \<and> active_trades st' ''BTCUSDT'' =
            Some \<lparr>entry_price = 992, signal = ''SELL'', entry_time = 2,
                  highest_since_entry = 992, lowest_since_entry = 992,
                  stop_loss = 1011.84, stop_type = ''Initial''\<rparr>
        \<and> trade_history st' =
            [\<lparr>t_symbol = ''BTCUSDT'', t_entry_price = 1000, t_exit_price = 992,
              t_signal_type = ''BUY'', t_pnl = - 1, t_reason = ''Reversal'', t_timestamp = 2\<rparr>])"
proof -
  have k: "(0::real) \<le> 1" by simp
  have nb: "\<not> spec_stop_breached example_long 992"
    by (simp add: spec_stop_breached_def spec_active_stop_def spec_unrealized_pnl_def
        example_long_def)
  have ns: "\<not> at_sma \<lparr>current_price = 992, previous_price = 1005, current_upper = Some 1007,
          current_lower = Some 993, current_sma = Some 1000, previous_upper = Some 1005,
          previous_lower = Some 1003\<rparr>"
    by (simp add: at_sma_def)
  have sell: "new_sell_signal \<lparr>current_price = 992, previous_price = 1005, current_upper = Some 1007,
          current_lower = Some 993, current_sma = Some 1000, previous_upper = Some 1005,
          previous_lower = Some 1003\<rparr>"
    by (simp add: new_sell_signal_def)
  have f: "signal example_long = ''BUY''" "entry_price example_long = 1000"
    "spec_unrealized_pnl example_long 992 - TRADING_FEE * 200 = - 1"
    "trade_history example_long_state = []"
    by (simp_all add: example_long_def spec_unrealized_pnl_def TRADING_FEE_def
        example_long_state_def initial_state_def)
  note th = reversal_closes_and_reopens [OF example_long_state_reachable example_reversal_bars
      example_bands k, of "''BTCUSDT''" 2]
  have "\<exists>out st'.
        bollinger_signal ''BTCUSDT'' [1004, 1003, 1005, 992] [None, None, Some 1005, Some 1007]
          [None, None, Some 1003, Some 993] [None, None, Some 1004, Some 1000] 2
          example_long_state = Inr (out, st')
        \<and> out = (''SELL'', Reversed (- 1),
                 Some \<lparr>in_position = True, pi_entry_price = 992, pi_pnl = 0,
                       current_stop = 1011.84, pi_stop_type = ''Initial'',
                       position_type = ''SELL''\<rparr>)
        \<and> active_trades st' ''BTCUSDT'' =
            Some \<lparr>entry_price = 992, signal = ''SELL'', entry_time = 2,
                  highest_since_entry = 992, lowest_since_entry = 992,
                  stop_loss = 1011.84, stop_type = ''Initial''\<rparr>
        \<and> trade_history st' =
            [\<lparr>t_symbol = ''BTCUSDT'', t_entry_price = 1000, t_exit_price = 992,
              t_signal_type = ''BUY'', t_pnl = - 1, t_reason = ''Reversal'', t_timestamp = 2\<rparr>]"
    using th
    apply (elim exE conjE)
    apply (erule allE [of _ example_long])
    apply (simp add: example_long_state_position nb ns sell f Let_def
        trade_history_record_trade deque_append_def trade_history_maxlen_def)
    done
  then show ?thesis
    using example_long_state_reachable example_reversal_bars example_bands k
      example_long_state_position nb ns sell f(1)
    by blast
qed

section \<open>Properties of the breakout detection and the evaluation cycle\<close>

text \<open>
  Claim C9. For series that end in the two bars \<open>(pp, pu, pl)\<close> and \<open>(cp, cu, cl)\<close>
  with defined bands, the values are read without error, the buy signal is
  \<open>pp \<le> pu \<and> cp > cu\<close> and the sell signal is \<open>pp \<ge> pl \<and> cp < cl\<close>, whatever
  precedes the two bars and whatever the moving average is: a second history that ends
  in the same two bars yields the same pair. In a flat state the signal that
  \<^verbatim>\<open>bollinger_signal\<close> returns is decided by exactly these two conditions.
\<close>

theorem breakout_signals_two_bars:
  "\<exists>b b'.
     read_bars (ps @ [pp, cp]) (us @ [Some pu, Some cu]) (ls @ [Some pl, Some cl]) (ms @ [pm, cm]) = Inr b
     \<and> new_buy_signal b = (pp \<le> pu \<and> cp > cu)
     \<and> new_sell_signal b = (pp \<ge> pl \<and> cp < cl)
     \<and> read_bars (ps' @ [pp, cp]) (us' @ [Some pu, Some cu]) (ls' @ [Some pl, Some cl]) (ms' @ [pm', cm']) = Inr b'
     \<and> new_buy_signal b' = new_buy_signal b
     \<and> new_sell_signal b' = new_sell_signal b
     \<and> (active_trades st symbol = None \<longrightarrow>
          (\<exists>out st'.
             bollinger_signal symbol (ps @ [pp, cp]) (us @ [Some pu, Some cu])
               (ls @ [Some pl, Some cl]) (ms @ [pm, cm]) now st = Inr (out, st')
             \<and> fst out = (if pp \<le> pu \<and> cp > cu then ''BUY''
                          else if pp \<ge> pl \<and> cp < cl then ''SELL'' else ''NEUTRAL'')))"
proof -
  define b where "b = \<lparr>current_price = cp, previous_price = pp, current_upper = Some cu,
          current_lower = Some cl, current_sma = cm, previous_upper = Some pu,
          previous_lower = Some pl\<rparr>"
  define b' where "b' = \<lparr>current_price = cp, previous_price = pp, current_upper = Some cu,
          current_lower = Some cl, current_sma = cm', previous_upper = Some pu,
          previous_lower = Some pl\<rparr>"
  have rb: "read_bars (ps @ [pp, cp]) (us @ [Some pu, Some cu]) (ls @ [Some pl, Some cl]) (ms @ [pm, cm]) = Inr b"
    unfolding b_def by (rule read_bars_snoc2)
  have rb': "read_bars (ps' @ [pp, cp]) (us' @ [Some pu, Some cu]) (ls' @ [Some pl, Some cl]) (ms' @ [pm', cm']) = Inr b'"
    unfolding b'_def by (rule read_bars_snoc2)
  have buy: "new_buy_signal b = (pp \<le> pu \<and> cp > cu)" "new_buy_signal b' = new_buy_signal b"
    by (simp_all add: new_buy_signal_def b_def b'_def)
  have sell: "new_sell_signal b = (pp \<ge> pl \<and> cp < cl)" "new_sell_signal b' = new_sell_signal b"
    by (simp_all add: new_sell_signal_def b_def b'_def)
  have flat: "\<exists>out st'.
             bollinger_signal symbol (ps @ [pp, cp]) (us @ [Some pu, Some cu])
               (ls @ [Some pl, Some cl]) (ms @ [pm, cm]) now st = Inr (out, st')
             \<and> fst out = (if pp \<le> pu \<and> cp > cu then ''BUY''
                          else if pp \<ge> pl \<and> cp < cl then ''SELL'' else ''NEUTRAL'')"
    if "active_trades st symbol = None"
    unfolding bollinger_signal_read [OF rb]
    by (simp add: evaluate_bars_flat [OF that] Let_def buy sell)
  show ?thesis
    apply (rule exI [of _ b], rule exI [of _ b'])
    apply (intro conjI impI)
    apply (rule rb buy sell rb' | erule flat)+
    done
qed

theorem breakout_signals_two_bars_witness:
  "active_trades initial_state ''BTCUSDT'' = None
   \<and> (\<exists>out st'.
        bollinger_signal ''BTCUSDT'' ([980, 985] @ [990, 1000]) ([None] @ [Some 995, Some 998])
          ([None] @ [Some 945, Some 942]) ([None] @ [Some 970, Some 970]) 1 initial_state
          = Inr (out, st')
        \<and> fst out = ''BUY'')"
proof -
  have flat: "active_trades initial_state ''BTCUSDT'' = None"
    by (simp add: initial_state_def)
  from breakout_signals_two_bars [of "[980, 985]" 990 1000 "[None]" 995 998 "[None]" 945 942
      "[None]" "Some 970" "Some 970" "[]" "[]" "[]" "[]" None None initial_state "''BTCUSDT''" 1]
  show ?thesis by (auto simp: flat)
qed


lemma fetch_asset_data_short:
  "fetch symbol interval = Some df \<Longrightarrow> length df < 50 \<Longrightarrow>
   fetch_asset_data fetch symbol interval now st = (error_snapshot No_data, st)"
  by (simp add: fetch_asset_data_def)

lemma update_loop_skip:
  assumes short: "fetch symbol interval = Some df" "length df < 50"
    and agree: "\<forall>s. s \<noteq> symbol \<longrightarrow> sigA s = sigB s"
  shows "snd (update_loop fetch interval now assets sigA st) =
           snd (update_loop fetch interval now (removeAll symbol assets) sigB st)
       \<and> (\<forall>s. s \<noteq> symbol \<longrightarrow>
             fst (update_loop fetch interval now assets sigA st) s =
             fst (update_loop fetch interval now (removeAll symbol assets) sigB st) s)
       \<and> fst (update_loop fetch interval now assets sigA st) symbol =
           (if symbol \<in> set assets then Some (error_snapshot No_data) else sigA symbol)"
  using agree
proof (induction assets arbitrary: sigA sigB st)
  case Nil
  then show ?case by simp
next
  case (Cons a rest)
  show ?case
  proof (cases "a = symbol")
    case True
    define sigA' where "sigA' = sigA(symbol \<mapsto> error_snapshot No_data)"
    have ag: "\<forall>s. s \<noteq> symbol \<longrightarrow> sigA' s = sigB s"
      using Cons.prems by (simp add: sigA'_def)
    note ih = Cons.IH [of sigA' sigB st, OF ag]
    have step: "update_loop fetch interval now (a # rest) sigA st =
        update_loop fetch interval now rest sigA' st"
      using True
      by (simp add: fetch_asset_data_short [of fetch symbol interval df, OF short] sigA'_def)
    have drop_it: "removeAll symbol (a # rest) = removeAll symbol rest" using True by simp
    have here: "sigA' symbol = Some (error_snapshot No_data)" by (simp add: sigA'_def)
    show ?thesis
      unfolding step drop_it using ih here True by simp
  next
    case False
    obtain snap st1 where f: "fetch_asset_data fetch a interval now st = (snap, st1)"
      by (cases "fetch_asset_data fetch a interval now st") auto
    define sigA' where "sigA' = sigA(a \<mapsto> snap)"
    define sigB' where "sigB' = sigB(a \<mapsto> snap)"
    have ag: "\<forall>s. s \<noteq> symbol \<longrightarrow> sigA' s = sigB' s"
      using Cons.prems by (simp add: sigA'_def sigB'_def)
    note ih = Cons.IH [of sigA' sigB' st1, OF ag]
    have step: "update_loop fetch interval now (a # rest) sigA st =
        update_loop fetch interval now rest sigA' st1"
      by (simp add: f sigA'_def)
    have keep_it: "update_loop fetch interval now (removeAll symbol (a # rest)) sigB st =
        update_loop fetch interval now (removeAll symbol rest) sigB' st1"
      using False by (simp add: f sigB'_def)
    have here: "sigA' symbol = sigA symbol" using False by (simp add: sigA'_def)
    show ?thesis
      unfolding step keep_it using ih here False by simp
  qed
qed

text \<open>
  Claim C5. For an asset whose fetched history has fewer than 50 candles,
  \<^verbatim>\<open>fetch_asset_data\<close> returns the snapshot with signal \<^verbatim>\<open>ERROR\<close> and reason
  \<^verbatim>\<open>No data\<close> and leaves the whole state (positions, ledger, summary) as it was. The
  cycle over any asset list ends in the state, and in the snapshots of all other assets,
  of the cycle over the list without that asset; the same holds for
  \<^verbatim>\<open>update_all_signals\<close> over \<open>ASSETS\<close>, whose published snapshot of the asset is the
  error snapshot.
\<close>

theorem short_history_is_no_data:
  assumes short: "fetch symbol interval = Some df" "length df < 50"
  shows "fetch_asset_data fetch symbol interval now st =
           (\<lparr>s_signal = ''ERROR'', s_reason = No_data, s_position = None\<rparr>, st)
   \<and> snd (update_loop fetch interval now assets signals st) =
       snd (update_loop fetch interval now (removeAll symbol assets) signals st)
   \<and> (\<forall>s. s \<noteq> symbol \<longrightarrow>
         fst (update_loop fetch interval now assets signals st) s =
         fst (update_loop fetch interval now (removeAll symbol assets) signals st) s)
   \<and> (let st' = update_all_signals fetch interval now st;
           (signals2, st2) = update_loop fetch interval now (removeAll symbol ASSETS) Map.empty st
       in active_trades st' = active_trades st2
        \<and> trade_history st' = trade_history st2
        \<and> performance_metrics st' = performance_metrics st2
        \<and> (\<forall>s. s \<noteq> symbol \<longrightarrow> latest_signals st' s = signals2 s)
        \<and> (symbol \<in> set ASSETS \<longrightarrow>
             latest_signals st' symbol =
               Some \<lparr>s_signal = ''ERROR'', s_reason = No_data, s_position = None\<rparr>))"
proof -
  have same: "\<forall>s. s \<noteq> symbol \<longrightarrow> sg s = sg s" for sg :: "string \<Rightarrow> snapshot option"
    by simp
  have loop: "snd (update_loop fetch interval now assets sg st) =
           snd (update_loop fetch interval now (removeAll symbol assets) sg st)
       \<and> (\<forall>s. s \<noteq> symbol \<longrightarrow>
             fst (update_loop fetch interval now assets sg st) s =
             fst (update_loop fetch interval now (removeAll symbol assets) sg st) s)
       \<and> fst (update_loop fetch interval now assets sg st) symbol =
           (if symbol \<in> set assets then Some (error_snapshot No_data) else sg symbol)"
    for now assets sg st
    by (rule update_loop_skip [of fetch symbol interval df sg sg, OF short same])
  have one: "fetch_asset_data fetch symbol interval now st =
           (\<lparr>s_signal = ''ERROR'', s_reason = No_data, s_position = None\<rparr>, st)"
    using fetch_asset_data_short [of fetch symbol interval df, OF short]
    by (simp add: error_snapshot_def)
  have cycle: "let st' = update_all_signals fetch interval now st;
           (signals2, st2) = update_loop fetch interval now (removeAll symbol ASSETS) Map.empty st
       in active_trades st' = active_trades st2
        \<and> trade_history st' = trade_history st2
        \<and> performance_metrics st' = performance_metrics st2
        \<and> (\<forall>s. s \<noteq> symbol \<longrightarrow> latest_signals st' s = signals2 s)
        \<and> (symbol \<in> set ASSETS \<longrightarrow>
             latest_signals st' symbol =
               Some \<lparr>s_signal = ''ERROR'', s_reason = No_data, s_position = None\<rparr>)"
    using loop [of now ASSETS Map.empty st]
    by (simp add: update_all_signals_def Let_def case_prod_beta error_snapshot_def)
  from one loop [of now assets signals st] cycle show ?thesis by blast
qed

lemma example_fetch_no_data:
  "fetch_asset_data example_fetch s interval now st = (error_snapshot No_data, st)"
  by (simp add: fetch_asset_data_def example_fetch_def)

lemma example_fetch_loop:
  "snd (update_loop example_fetch interval now assets signals st) = st"
  by (induction assets arbitrary: signals) (simp_all add: example_fetch_no_data)

theorem short_history_is_no_data_witness:
  "example_fetch ''ETHUSDT'' ''1h'' = Some (replicate 30 example_candle)
   \<and> length (replicate 30 example_candle) < 50
   \<and> ''ETHUSDT'' \<in> set ASSETS
   \<and> fetch_asset_data example_fetch ''ETHUSDT'' ''1h'' 2 example_long_state =
        (\<lparr>s_signal = ''ERROR'', s_reason = No_data, s_position = None\<rparr>, example_long_state)
   \<and> latest_signals (update_all_signals example_fetch ''1h'' 2 example_long_state) ''ETHUSDT'' =
        Some \<lparr>s_signal = ''ERROR'', s_reason = No_data, s_position = None\<rparr>
   \<and> active_trades (update_all_signals example_fetch ''1h'' 2 example_long_state) ''BTCUSDT'' =
        Some example_long
   \<and> trade_history (update_all_signals example_fetch ''1h'' 2 example_long_state) = []"
proof -
  have h: "example_fetch ''ETHUSDT'' ''1h'' = Some (replicate 30 example_candle)"
    "length (replicate 30 example_candle) < 50"
    by (simp_all add: example_fetch_def)
  have mem: "''ETHUSDT'' \<in> set ASSETS" by (simp add: ASSETS_def)
  note others = example_fetch_loop [of "''1h''" 2 "removeAll ''ETHUSDT'' ASSETS" Map.empty
      example_long_state]
  note th = short_history_is_no_data [of example_fetch "''ETHUSDT''" "''1h''"
      "replicate 30 example_candle", OF h, of 2 example_long_state ASSETS Map.empty]
  from th have one: "fetch_asset_data example_fetch ''ETHUSDT'' ''1h'' 2 example_long_state =
        (\<lparr>s_signal = ''ERROR'', s_reason = No_data, s_position = None\<rparr>, example_long_state)"
    by (rule conjunct1)
  from th have cycle: "let st' = update_all_signals example_fetch ''1h'' 2 example_long_state;
           (signals2, st2) = update_loop example_fetch ''1h'' 2 (removeAll ''ETHUSDT'' ASSETS)
              Map.empty example_long_state
       in active_trades st' = active_trades st2
        \<and> trade_history st' = trade_history st2
        \<and> performance_metrics st' = performance_metrics st2
        \<and> (\<forall>s. s \<noteq> ''ETHUSDT'' \<longrightarrow> latest_signals st' s = signals2 s)
        \<and> (''ETHUSDT'' \<in> set ASSETS \<longrightarrow>
             latest_signals st' ''ETHUSDT'' =
               Some \<lparr>s_signal = ''ERROR'', s_reason = No_data, s_position = None\<rparr>)"
    by (elim conjE)
  have after: "latest_signals (update_all_signals example_fetch ''1h'' 2 example_long_state) ''ETHUSDT'' =
        Some \<lparr>s_signal = ''ERROR'', s_reason = No_data, s_position = None\<rparr>
     \<and> active_trades (update_all_signals example_fetch ''1h'' 2 example_long_state) =
        active_trades example_long_state
     \<and> trade_history (update_all_signals example_fetch ''1h'' 2 example_long_state) =
        trade_history example_long_state"
    using cycle mem unfolding Let_def case_prod_beta others by (elim conjE impE) simp_all
  have st: "active_trades example_long_state ''BTCUSDT'' = Some example_long"
    "trade_history example_long_state = []"
    by (simp_all add: example_long_state_def initial_state_def)
  from after st h mem one show ?thesis
    by (intro conjI) simp_all
qed

text \<open>
  The reachable states contain every state of the running program: a cycle of
  \<^verbatim>\<open>update_all_signals\<close> over histories of positive closes leads from a reachable state
  to a reachable state.
\<close>

lemma iloc_last_mem:
  assumes "iloc xs (- 1) = Inr x"
  shows "x \<in> set xs"
proof -
  from iloc_last [OF assms] have "xs \<noteq> []" and "x = xs ! (length xs - 1)" by simp_all
  then show ?thesis by simp
qed

lemma reachable_fetch_asset_data:
  assumes reach: "reachable st"
    and pos: "\<forall>df. fetch symbol interval = Some df \<longrightarrow> (\<forall>c \<in> set df. 0 < c_close c)"
  shows "reachable (snd (fetch_asset_data fetch symbol interval now st))"
proof (cases "fetch symbol interval")
  case None
  then show ?thesis using reach by (simp add: fetch_asset_data_def)
next
  case (Some df)
  show ?thesis
  proof (cases "length df < 50")
    case True
    then show ?thesis using reach Some by (simp add: fetch_asset_data_def)
  next
    case long: False
    show ?thesis
    proof (cases "calculate_bollinger_bands (map c_close df) 20 1")
      case None
      then show ?thesis using reach Some long by (simp add: fetch_asset_data_def)
    next
      case bands: (Some t)
      obtain u m l where t: "t = (u, m, l)" by (cases t) auto
      show ?thesis
      proof (cases "bollinger_signal symbol (map c_close df) u l m now st")
        case (Inl e)
        then show ?thesis using reach Some long bands t by (simp add: fetch_asset_data_def)
      next
        case (Inr r)
        obtain out st' where r: "r = (out, st')" by (cases r) auto
        from Inr r have call: "bollinger_signal symbol (map c_close df) u l m now st = Inr (out, st')"
          by simp
        from call obtain b :: bars where il: "iloc (map c_close df) (- 1) = Inr (current_price b)"
          by (rule bollinger_signal_Inr)
        from iloc_last_mem [OF il] pos Some have "0 < current_price b" by auto
        with reach call il have "reachable st'"
          by (blast intro: reachable_step)
        moreover have "snd (fetch_asset_data fetch symbol interval now st) = st'"
          using Some long bands t Inr r
          by (simp add: fetch_asset_data_def split: prod.splits)
        ultimately show ?thesis by simp
      qed
    qed
  qed
qed

lemma reachable_update_loop:
  assumes pos: "\<forall>symbol df. fetch symbol interval = Some df \<longrightarrow> (\<forall>c \<in> set df. 0 < c_close c)"
  shows "reachable st \<Longrightarrow> reachable (snd (update_loop fetch interval now assets signals st))"
proof (induction assets arbitrary: signals st)
  case Nil
  then show ?case by simp
next
  case (Cons a rest)
  have "reachable (snd (fetch_asset_data fetch a interval now st))"
    using Cons.prems pos by (intro reachable_fetch_asset_data) auto
  then show ?case
    using Cons.IH by (simp add: case_prod_beta)
qed

lemma reachable_update_all_signals:
  assumes "reachable st"
    and "\<forall>symbol df. fetch symbol interval = Some df \<longrightarrow> (\<forall>c \<in> set df. 0 < c_close c)"
  shows "reachable (update_all_signals fetch interval now st)"
  using reachable_update_loop [of fetch interval st now ASSETS Map.empty, OF assms(2) assms(1)]
  by (simp add: update_all_signals_def case_prod_beta reachable_publish)

lemma reachable_ledger_bound: "reachable st \<Longrightarrow> length (trade_history st) \<le> 200"
proof (induction rule: reachable.induct)
  case reachable_init
  then show ?case by (simp add: initial_state_def)
next
  case (reachable_step st symbol prices_close upper_band lower_band sma now out st' cp)
  from reachable_step.hyps(2) obtain b where ev: "evaluate_bars symbol b now st = (out, st')"
    by (rule bollinger_signal_Inr)
  have app: "length (deque_append trade_history_maxlen (trade_history st) t) \<le> 200" for t
    using reachable_step.IH by (auto simp: deque_append_def trade_history_maxlen_def Let_def)
  show ?case
  proof (cases "active_trades st symbol")
    case None
    with ev reachable_step.IH show ?thesis
      by (auto simp: evaluate_bars_flat Let_def split: if_splits)
  next
    case (Some p)
    have ok: "position_ok p" using reachable_step.hyps(1) Some by (rule reachable_position_ok)
    from ev reachable_step.IH app show ?thesis
      by (auto simp: evaluate_bars_open [OF Some ok] Let_def trade_history_record_trade
          split: if_splits)
  qed
next
  case (reachable_publish st signals)
  then show ?case by simp
qed

text \<open>
  Claim C6. The ledger never holds more than 200 trades, in any reachable state and
  after any sequence of appends to the empty ledger; after such a sequence it holds the
  most recent \<open>min 200 (length ts)\<close> of the appended trades in the order of the
  appends, and an append to a ledger of 200 trades drops the oldest one and keeps the
  other 199 in order.
\<close>

theorem ledger_capacity_fifo:
  "(reachable st0 \<longrightarrow> length (trade_history st0) \<le> 200)
   \<and> length (trade_history (record_trades ts initial_state)) \<le> 200
   \<and> trade_history (record_trades ts initial_state) = drop (length ts - min 200 (length ts)) ts
   \<and> (length (trade_history st) = 200 \<longrightarrow>
        trade_history (record_trade symbol entry exit signal_type pnl reason now st) =
          tl (trade_history st) @
            [\<lparr>t_symbol = symbol, t_entry_price = entry, t_exit_price = exit,
              t_signal_type = signal_type, t_pnl = pnl, t_reason = reason, t_timestamp = now\<rparr>])"
proof -
  have eq: "trade_history (record_trades ts initial_state) = drop (length ts - 200) ts"
    using trade_history_record_trades [of ts] by (simp add: trade_history_maxlen_def)
  have "length ts - min 200 (length ts) = length ts - 200" by simp
  with eq reachable_ledger_bound [of st0] show ?thesis
    by (simp add: trade_history_record_trade trade_history_maxlen_def deque_append_full)
qed

theorem ledger_capacity_fifo_witness:
  "reachable example_long_state
   \<and> length (trade_history example_long_state) \<le> 200
   \<and> length (trade_history
      (initial_state\<lparr>trade_history :=
         replicate 200 \<lparr>t_symbol = ''BTCUSDT'', t_entry_price = 100, t_exit_price = 98,
           t_signal_type = ''BUY'', t_pnl = - 2.2, t_reason = ''Stop'', t_timestamp = 1\<rparr>\<rparr>)) = 200
   \<and> trade_history (record_trade ''ETHUSDT'' 50 51 ''BUY'' 1.8 ''SMA'' 2
      (initial_state\<lparr>trade_history :=
         replicate 200 \<lparr>t_symbol = ''BTCUSDT'', t_entry_price = 100, t_exit_price = 98,
           t_signal_type = ''BUY'', t_pnl = - 2.2, t_reason = ''Stop'', t_timestamp = 1\<rparr>\<rparr>)) =
     tl (trade_history
      (initial_state\<lparr>trade_history :=
         replicate 200 \<lparr>t_symbol = ''BTCUSDT'', t_entry_price = 100, t_exit_price = 98,
           t_signal_type = ''BUY'', t_pnl = - 2.2, t_reason = ''Stop'', t_timestamp = 1\<rparr>\<rparr>)) @
      [\<lparr>t_symbol = ''ETHUSDT'', t_entry_price = 50, t_exit_price = 51,
        t_signal_type = ''BUY'', t_pnl = 1.8, t_reason = ''SMA'', t_timestamp = 2\<rparr>]"
  using example_long_state_reachable ledger_capacity_fifo [of example_long_state "[]"
      "initial_state\<lparr>trade_history :=
         replicate 200 \<lparr>t_symbol = ''BTCUSDT'', t_entry_price = 100, t_exit_price = 98,
           t_signal_type = ''BUY'', t_pnl = - 2.2, t_reason = ''Stop'', t_timestamp = 1\<rparr>\<rparr>"
      "''ETHUSDT''" 50 51 "''BUY''" "1.8" "''SMA''" 2]
  by simp


end
